theory Spec2Isabelle
  imports
    Complex_Main
    "HOL-Library.Sublist"
    "HOL-Library.AList"
    "HOL-Library.Char_ord"
    "HOL-Library.List_Lexorder"
    "HOL-Library.Multiset"
begin

section \<open>Python strings\<close>

text \<open>
  A Python \<open>str\<close> is modelled as a \<open>string\<close> (a list of characters). The model covers
  ASCII text: case mapping acts on the letters \<open>A\<close>..\<open>Z\<close> and \<open>a\<close>..\<open>z\<close> and leaves every
  other character alone, and the whitespace removed by \<open>str.strip()\<close> is the ASCII
  whitespace of \<open>str.isspace()\<close> (codes 9 to 13 and 28 to 32).
  \<open>sub in s\<close> is \<^const>\<open>sublist\<close>, \<open>s.startswith(p)\<close> is \<^const>\<open>prefix\<close>,
  \<open>s[:n]\<close> is \<^const>\<open>take\<close> and \<open>len(s)\<close> is \<^const>\<open>length\<close>.
\<close>

definition lower_char :: "char \<Rightarrow> char" where
  "lower_char c =
     (let n = (of_char c :: nat) in if 65 \<le> n \<and> n \<le> 90 then char_of (n + 32) else c)"

definition upper_char :: "char \<Rightarrow> char" where
  "upper_char c =
     (let n = (of_char c :: nat) in if 97 \<le> n \<and> n \<le> 122 then char_of (n - 32) else c)"

definition str_lower :: "string \<Rightarrow> string" where
  "str_lower s = map lower_char s"

definition str_upper :: "string \<Rightarrow> string" where
  "str_upper s = map upper_char s"

definition isspace :: "char \<Rightarrow> bool" where
  "isspace c = (let n = (of_char c :: nat) in (9 \<le> n \<and> n \<le> 13) \<or> (28 \<le> n \<and> n \<le> 32))"

definition str_strip :: "string \<Rightarrow> string" where
  "str_strip s = rev (dropWhile isspace (rev (dropWhile isspace s)))"

text \<open>
  \<open>s.replace(old, new)\<close> for a non-empty \<open>old = o # os\<close>: every occurrence is replaced,
  scanning from the left, and the scan goes on after the replaced occurrence.
\<close>

fun replace_ne :: "char \<Rightarrow> string \<Rightarrow> string \<Rightarrow> string \<Rightarrow> string" where
  "replace_ne o' os new [] = []"
| "replace_ne o' os new (c # cs) =
     (if c = o' \<and> prefix os cs then new @ replace_ne o' os new (drop (length os) cs)
      else c # replace_ne o' os new cs)"

text \<open>With an empty \<open>old\<close>, Python puts \<open>new\<close> before every character and at the end.\<close>

definition str_replace :: "string \<Rightarrow> string \<Rightarrow> string \<Rightarrow> string" where
  "str_replace s old new =
     (case old of
        [] \<Rightarrow> new @ concat (map (\<lambda>c. c # new) s)
      | o' # os \<Rightarrow> replace_ne o' os new s)"

text \<open>\<open>s.find(sub)\<close>: the least index at which \<open>sub\<close> occurs in \<open>s\<close>, or \<open>-1\<close>.\<close>

fun find_from :: "int \<Rightarrow> string \<Rightarrow> string \<Rightarrow> int" where
  "find_from i sub [] = (if sub = [] then i else -1)"
| "find_from i sub (c # cs) = (if prefix sub (c # cs) then i else find_from (i + 1) sub cs)"

definition str_find :: "string \<Rightarrow> string \<Rightarrow> int" where
  "str_find s sub = find_from 0 sub s"

text \<open>\<open>sep.join(parts)\<close>.\<close>

fun str_join :: "string \<Rightarrow> string list \<Rightarrow> string" where
  "str_join sep [] = []"
| "str_join sep [p] = p"
| "str_join sep (p # q # ps) = p @ sep @ str_join sep (q # ps)"

text \<open>\<open>str(i)\<close> for an integer: decimal digits, with a sign for a negative number.\<close>

fun str_nat :: "nat \<Rightarrow> string" where
  "str_nat n =
     (if n < 10 then [char_of (48 + n)]
      else str_nat (n div 10) @ [char_of (48 + n mod 10)])"

definition str_int :: "int \<Rightarrow> string" where
  "str_int i = (if i < 0 then CHR ''-'' # str_nat (nat (- i)) else str_nat (nat i))"

section \<open>Contributions and the history store (orchestrator.py)\<close>

text \<open>The dataclass \<open>Contribution\<close>.\<close>

record Contribution =
  role :: string
  answer :: string
  confidence :: real
  rationale :: string
  iteration :: int

text \<open>
  The table \<open>contributions\<close> of the database behind a \<open>HistoryStore\<close>: its rows in the
  order of insertion, and the counter that \<open>AUTOINCREMENT\<close> keeps (the largest id ever
  given). The model assumes that the storage layer itself succeeds.
\<close>

record Row =
  row_id :: int
  ts :: real
  contrib :: Contribution

record HistoryStore =
  path :: string
  rows :: "Row list"
  seq :: int

text \<open>\<open>HistoryStore(path)\<close> on a path with no database yet: the table is created empty.\<close>

definition HistoryStore_init :: "string \<Rightarrow> HistoryStore" where
  "HistoryStore_init p = \<lparr>path = p, rows = [], seq = 0\<rparr>"

text \<open>
  \<open>HistoryStore.log\<close>: one \<open>INSERT\<close>; the id is assigned by \<open>AUTOINCREMENT\<close>, and \<open>now\<close> is
  the reading of \<open>time.time()\<close>.
\<close>

definition HistoryStore_log :: "real \<Rightarrow> Contribution \<Rightarrow> HistoryStore \<Rightarrow> HistoryStore" where
  "HistoryStore_log now c s =
     (let i = seq s + 1
      in s\<lparr>rows := rows s @ [\<lparr>row_id = i, ts = now, contrib = c\<rparr>], seq := i\<rparr>)"






section \<open>The environment\<close>

text \<open>
  What the program reads from outside is a parameter of the model. Each reading is indexed
  by the moment of the call (the number of events recorded so far, see \<open>trace\<close> below), so
  that two calls with the same arguments may differ, as a sampling model or a clock does.
  \<^item> \<open>pipeline_ok task model\<close>: \<open>transformers.pipeline(task, model=model)\<close> returns (it
    raises when the library is not installed, where \<open>pipeline\<close> is \<open>None\<close>, or when the
    model cannot be loaded);
  \<^item> \<open>pipe_run n task model input\<close>: the call of the pipeline on \<open>input\<close>; \<open>Inl e\<close> is an
    exception with message \<open>e\<close> raised inside the \<open>try\<close> block, \<open>Inr t\<close> is the text of
    \<open>response[0]\<close> (\<open>summary_text\<close> or \<open>generated_text\<close>);
  \<^item> \<open>time_time n\<close>: the reading of \<open>time.time()\<close>;
  \<^item> \<open>now_plus_3h n\<close>: \<open>datetime.now() + 3 hours\<close> formatted by \<open>strftime('%Y-%m-%d %H:%M')\<close>.
\<close>

record env =
  pipeline_ok :: "string \<Rightarrow> string \<Rightarrow> bool"
  pipe_run :: "nat \<Rightarrow> string \<Rightarrow> string \<Rightarrow> string \<Rightarrow> string + string"
  time_time :: "nat \<Rightarrow> real"
  now_plus_3h :: "nat \<Rightarrow> string"

datatype error = PipelineError string string

definition bind_error :: "error + 'a \<Rightarrow> ('a \<Rightarrow> error + 'b) \<Rightarrow> error + 'b" where
  "bind_error x f = (case x of Inl e \<Rightarrow> Inl e | Inr v \<Rightarrow> f v)"

section \<open>Agents (agents.py)\<close>

text \<open>
  An agent is an object of one of the two classes. \<open>FakeLLM rl\<close> holds its role;
  \<open>HuggingFaceAgent rl task model\<close> holds its role and the pipeline made by its constructor,
  which is given by the pipeline task and the model name.
\<close>

datatype agent = FakeLLM string | HuggingFaceAgent string string string

fun agent_role :: "agent \<Rightarrow> string" where
  "agent_role (FakeLLM rl) = rl"
| "agent_role (HuggingFaceAgent rl pt model) = rl"

text \<open>\<open>FakeLLM.generate\<close>.\<close>

definition FakeLLM_generate :: "string \<Rightarrow> string \<Rightarrow> string \<Rightarrow> string" where
  "FakeLLM_generate rl task bt =
     (let task_lower = str_lower task;
          context = (if bt \<noteq> [] \<and> bt \<noteq> ''(empty)'' then bt else task)
      in if rl = ''ResearchBot'' then
           (if sublist ''capital of france'' task_lower then
              ''Paris is the capital of France, known for the Eiffel Tower.''
            else if sublist ''capital of india'' task_lower then ''New Delhi''
            else ''(fact guess about: '' @ take 40 task @ ''...)'')
         else if rl = ''CreativeBot'' then ''A whimsical story about: '' @ context
         else if rl = ''AnalysisBot'' then ''Key points from the board: '' @ take 60 context
         else if rl = ''Moderator'' then
           (if sublist ''Paris'' context \<or> sublist ''New Delhi'' context then
              ''CONCLUSION: The report is complete.''
            else ''NEXT_STEP: The research is incomplete.'')
         else ''Unhandled role '' @ rl)"

text \<open>\<open>HuggingFaceAgent.__init__\<close>: the constructor fails when the pipeline cannot be made.\<close>

definition HuggingFaceAgent_init :: "env \<Rightarrow> string \<Rightarrow> string \<Rightarrow> error + agent" where
  "HuggingFaceAgent_init e rl model_name =
     (let task = (if sublist ''Summarizer'' rl \<or> sublist ''Analysis'' rl then ''summarization''
                  else ''text-generation'')
      in if pipeline_ok e task model_name then Inr (HuggingFaceAgent rl task model_name)
         else Inl (PipelineError task model_name))"

text \<open>\<open>HuggingFaceAgent.generate\<close>, called at moment \<open>n\<close>.\<close>

definition HuggingFaceAgent_generate ::
  "env \<Rightarrow> nat \<Rightarrow> string \<Rightarrow> string \<Rightarrow> string \<Rightarrow> string \<Rightarrow> string \<Rightarrow> string" where
  "HuggingFaceAgent_generate e n rl pt model task bt =
     (if sublist ''Summarizer'' rl \<or> sublist ''Analysis'' rl then
        (let text_to_summarize = (if length bt > 50 then bt else task)
         in case pipe_run e n pt model text_to_summarize of
              Inl ex \<Rightarrow> ''Error during summarization: '' @ ex
            | Inr summary_text \<Rightarrow> summary_text)
      else
        (let prompt =
           (if rl = ''ResearchBot'' then
              ''Instruct: You are a research assistant. Provide a detailed, factual summary of the following topic.\<newline>Input: ''
                @ task @ ''\<newline>Output:''
            else if rl = ''CreativeBot'' then
              ''Instruct: You are a creative writer. Write an engaging narrative based on the provided text.\<newline>Input: ''
                @ bt @ ''\<newline>Output:''
            else
              ''Instruct: Analyze the following text and perform this task: '' @ task
                @ ''\<newline>Input: '' @ bt @ ''\<newline>Output:'')
         in case pipe_run e n pt model prompt of
              Inl ex \<Rightarrow> ''Error generating text: '' @ ex
            | Inr full_response \<Rightarrow>
                (let output_start = str_find full_response ''Output:''
                 in if output_start \<noteq> - 1
                    then str_strip (drop (nat (output_start + int (length ''Output:''))) full_response)
                    else full_response)))"

fun generate :: "env \<Rightarrow> nat \<Rightarrow> agent \<Rightarrow> string \<Rightarrow> string \<Rightarrow> string" where
  "generate e n (FakeLLM rl) task bt = FakeLLM_generate rl task bt"
| "generate e n (HuggingFaceAgent rl pt model) task bt =
     HuggingFaceAgent_generate e n rl pt model task bt"

section \<open>External tools (tools.py)\<close>

text \<open>
  \<open>find_available_calendar_slot\<close> and \<open>book_calendar_event\<close>, called at moment \<open>n\<close>. What
  they print is not modelled.
\<close>

definition find_available_calendar_slot :: "env \<Rightarrow> nat \<Rightarrow> int \<Rightarrow> string" where
  "find_available_calendar_slot e n duration_minutes = now_plus_3h e n"

definition book_calendar_event :: "nat \<Rightarrow> string \<Rightarrow> string \<Rightarrow> string \<Rightarrow> bool" where
  "book_calendar_event n time_slot title description = True"

section \<open>The orchestrator (orchestrator.py)\<close>

text \<open>
  The events of a run, in the order in which they happen: a call of an agent's
  \<open>generate\<close> (role, task, board text passed), an append to the history store, a write to
  the board, and the calls of the two tools. The list of events is kept in the field
  \<open>trace\<close> of the state; it is an observer of the program, not a part of it, and the
  program reads only its length, as the moment of a call.
\<close>

datatype event =
    AgentCall string string string
  | StoreLog Contribution
  | BoardPut string Contribution
  | FindSlot int
  | BookEvent string string string

text \<open>
  The object \<open>Orchestrator\<close>. The board is a Python dict: an association list in the order
  of insertion, where a write under a key that is present replaces the value in place.
\<close>

record Orchestrator =
  store :: HistoryStore
  rounds :: int
  use_hf :: bool
  board :: "(string \<times> Contribution) list"
  agents :: "(string \<times> agent) list"
  moderator :: "agent option"
  trace :: "event list"

definition Orchestrator_init :: "HistoryStore \<Rightarrow> int \<Rightarrow> bool \<Rightarrow> Orchestrator" where
  "Orchestrator_init s n hf =
     \<lparr>store = s, rounds = n, use_hf = hf, board = [], agents = [], moderator = None, trace = []\<rparr>"

text \<open>
  \<open>Orchestrator._board_text\<close>. Every key of the loop is a key of the board, so the lookup
  \<open>self.board[agent_id]\<close> finds its entry.
\<close>

definition board_block :: "(string \<times> Contribution) list \<Rightarrow> string \<Rightarrow> string" where
  "board_block b agent_id =
     (let data = the (map_of b agent_id)
      in ''--- Contribution from '' @ agent_id @ '' ---\<newline>'' @ answer data)"

definition board_text :: "(string \<times> Contribution) list \<Rightarrow> string" where
  "board_text b =
     (if b = [] then ''(empty)''
      else str_join ''\<newline>\<newline>'' (map (board_block b) (sort (map fst b))))"

text \<open>The three kinds of step of a workflow; each records its event.\<close>

definition call_generate ::
  "env \<Rightarrow> agent \<Rightarrow> string \<Rightarrow> string \<Rightarrow> Orchestrator \<Rightarrow> string \<times> Orchestrator" where
  "call_generate e a task bt st =
     (generate e (length (trace st)) a task bt,
      st\<lparr>trace := trace st @ [AgentCall (agent_role a) task bt]\<rparr>)"

definition store_log :: "env \<Rightarrow> Contribution \<Rightarrow> Orchestrator \<Rightarrow> Orchestrator" where
  "store_log e c st =
     st\<lparr>store := HistoryStore_log (time_time e (length (trace st))) c (store st),
        trace := trace st @ [StoreLog c]\<rparr>"

definition board_put :: "string \<Rightarrow> Contribution \<Rightarrow> Orchestrator \<Rightarrow> Orchestrator" where
  "board_put k c st =
     st\<lparr>board := AList.update k c (board st), trace := trace st @ [BoardPut k c]\<rparr>"

subsection \<open>Research collaboration\<close>

text \<open>The body of the inner loop over \<open>self.agents.items()\<close>, in round \<open>r\<close>.\<close>

definition agent_turn ::
  "env \<Rightarrow> string \<Rightarrow> int \<Rightarrow> string \<times> agent \<Rightarrow> Orchestrator \<Rightarrow> Orchestrator" where
  "agent_turn e task r ra st =
     (let (output, st1) = call_generate e (snd ra) task (board_text (board st)) st;
          c = \<lparr>role = fst ra, answer = output, confidence = 0.8,
               rationale = ''generated'', iteration = r\<rparr>;
          st2 = store_log e c st1
      in board_put (fst ra @ ''-r'' @ str_int r) c st2)"

text \<open>The moderator's part of round \<open>r\<close>; the result is \<open>mod_output\<close> with the new state.\<close>

definition moderator_turn ::
  "env \<Rightarrow> string \<Rightarrow> int \<Rightarrow> agent \<Rightarrow> Orchestrator \<Rightarrow> string \<times> Orchestrator" where
  "moderator_turn e task r m st =
     (let (mod_output, st1) = call_generate e m task (board_text (board st)) st;
          c = \<lparr>role = ''Moderator'', answer = mod_output, confidence = 0.9,
               rationale = ''review'', iteration = r\<rparr>;
          st2 = store_log e c st1
      in (mod_output, board_put (''Moderator-r'' @ str_int r) c st2))"

definition research_round ::
  "env \<Rightarrow> string \<Rightarrow> agent \<Rightarrow> int \<Rightarrow> Orchestrator \<Rightarrow> string \<times> Orchestrator" where
  "research_round e task m r st =
     moderator_turn e task r m (fold (agent_turn e task r) (agents st) st)"

text \<open>The test that ends the loop, and the report made of the moderator's answer.\<close>

definition is_conclusion :: "string \<Rightarrow> bool" where
  "is_conclusion mod_output = prefix ''CONCLUSION:'' (str_upper (str_strip mod_output))"

definition conclusion_report :: "string \<Rightarrow> string" where
  "conclusion_report mod_output = str_strip (str_replace mod_output ''CONCLUSION:'' [])"

text \<open>
  The loop \<open>for r in range(1, self.rounds + 1)\<close> over the rounds that remain, with its early
  \<open>return\<close>; the result is \<open>final_report\<close> with the final state.
\<close>

fun research_rounds ::
  "env \<Rightarrow> string \<Rightarrow> agent \<Rightarrow> int list \<Rightarrow> Orchestrator \<Rightarrow> string \<times> Orchestrator" where
  "research_rounds e task m [] st = (''No conclusion reached after maximum rounds.'', st)"
| "research_rounds e task m (r # rs) st =
     (let (mod_output, st') = research_round e task m r st
      in if is_conclusion mod_output then (conclusion_report mod_output, st')
         else research_rounds e task m rs st')"

definition research_agents :: "env \<Rightarrow> bool \<Rightarrow> error + (string \<times> agent) list \<times> agent" where
  "research_agents e hf =
     (if hf then
        bind_error (HuggingFaceAgent_init e ''ResearchBot'' ''microsoft/phi-2'') (\<lambda>a1.
        bind_error (HuggingFaceAgent_init e ''CreativeBot'' ''microsoft/phi-2'') (\<lambda>a2.
        bind_error (HuggingFaceAgent_init e ''AnalysisBot'' ''facebook/bart-large-cnn'') (\<lambda>a3.
        bind_error (HuggingFaceAgent_init e ''Moderator'' ''microsoft/phi-2'') (\<lambda>m.
          Inr ([(''ResearchBot'', a1), (''CreativeBot'', a2), (''AnalysisBot'', a3)], m)))))
      else
        Inr ([(''ResearchBot'', FakeLLM ''ResearchBot''), (''CreativeBot'', FakeLLM ''CreativeBot''),
              (''AnalysisBot'', FakeLLM ''AnalysisBot'')], FakeLLM ''Moderator''))"

text \<open>
  \<open>Orchestrator.run_research_collaboration\<close>. The value returned is the dict
  \<open>{"board": self.board, "final": {"summary": final_report}}\<close>.
\<close>

record research_result =
  result_board :: "(string \<times> Contribution) list"
  result_summary :: string

definition run_research_collaboration ::
  "env \<Rightarrow> string \<Rightarrow> Orchestrator \<Rightarrow> error + research_result \<times> Orchestrator" where
  "run_research_collaboration e task st =
     bind_error (research_agents e (use_hf st)) (\<lambda>(ags, m).
       let st1 = st\<lparr>agents := ags, moderator := Some m\<rparr>;
           (final_report, st2) = research_rounds e task m [1..rounds st1] st1
       in Inr (\<lparr>result_board = board st2, result_summary = final_report\<rparr>, st2))"

subsection \<open>Schedule optimization\<close>

text \<open>
  The decision of lines 166 to 188, for a slot finder \<open>find_slot\<close> and a booking
  collaborator \<open>book\<close>; the result is \<open>final_report_text\<close> with the new state. Its parts:
  the test of line 170 and the title of lines 171 to 176, both on the lower-cased action
  items, and the text of line 186.
\<close>

definition has_scheduling_keyword :: "string \<Rightarrow> bool" where
  "has_scheduling_keyword action_lower =
     (sublist ''schedule'' action_lower \<or> sublist ''finalize'' action_lower
      \<or> sublist ''review'' action_lower)"

definition meeting_title_for :: "string \<Rightarrow> string" where
  "meeting_title_for action_lower =
     (if sublist ''budget'' action_lower then ''Finalize Q4 Budget''
      else if sublist ''report'' action_lower then ''Review Detailed Report''
      else ''General Follow-up Meeting'')"

definition success_report :: "string \<Rightarrow> string \<Rightarrow> string" where
  "success_report meeting_title follow_up_time =
     ''SUCCESS: Follow-up meeting '' @ [CHR 0x27] @ meeting_title @ [CHR 0x27]
       @ '' scheduled for '' @ follow_up_time @ ''.''"

definition schedule_decision ::
  "(nat \<Rightarrow> int \<Rightarrow> string) \<Rightarrow> (nat \<Rightarrow> string \<Rightarrow> string \<Rightarrow> string \<Rightarrow> bool) \<Rightarrow>
   string \<Rightarrow> string \<Rightarrow> Orchestrator \<Rightarrow> string \<times> Orchestrator" where
  "schedule_decision find_slot book summary action_items st =
     (let action_lower = str_lower action_items
      in if has_scheduling_keyword action_lower then
           (let meeting_title = meeting_title_for action_lower;
                follow_up_time = find_slot (length (trace st)) 45;
                st1 = st\<lparr>trace := trace st @ [FindSlot 45]\<rparr>;
                description = ''Follow-up based on meeting summary: '' @ summary;
                success = book (length (trace st1)) follow_up_time meeting_title description;
                st2 = st1\<lparr>trace := trace st1 @ [BookEvent follow_up_time meeting_title description]\<rparr>
            in if success then (success_report meeting_title follow_up_time, st2)
               else (''FAILURE: Could not schedule the meeting.'', st2))
         else (''CONCLUSION: No specific scheduling action item was identified.'', st))"

definition action_item_task :: string where
  "action_item_task = ''Based on the transcript and summary, what is the single most important follow-up action item that requires scheduling? Respond with only the action itself.''"

definition schedule_steps ::
  "(nat \<Rightarrow> int \<Rightarrow> string) \<Rightarrow> (nat \<Rightarrow> string \<Rightarrow> string \<Rightarrow> string \<Rightarrow> bool) \<Rightarrow>
   env \<Rightarrow> string \<Rightarrow> agent \<Rightarrow> agent \<Rightarrow> Orchestrator \<Rightarrow> Orchestrator" where
  "schedule_steps find_slot book e transcript summarizer extractor st =
     (let task = ''Analyze the following transcript, summarize it, and extract the key action item. Transcript:\<newline>''
                   @ transcript;
          (summary, st1) = call_generate e summarizer task transcript st;
          c1 = \<lparr>role = ''TranscriptSummarizer'', answer = summary, confidence = 0.8,
                rationale = ''generated'', iteration = 1\<rparr>;
          st2 = board_put ''TranscriptSummarizer-r1'' c1 (store_log e c1 st1);
          (action_items, st3) =
             call_generate e extractor action_item_task (board_text (board st2)) st2;
          c2 = \<lparr>role = ''ActionItemExtractor'', answer = action_items, confidence = 0.8,
                rationale = ''generated'', iteration = 1\<rparr>;
          st4 = board_put ''ActionItemExtractor-r1'' c2 (store_log e c2 st3);
          (final_report_text, st5) = schedule_decision find_slot book summary action_items st4;
          c3 = \<lparr>role = ''Moderator'', answer = final_report_text, confidence = 0.9,
                rationale = ''conclusion'', iteration = 1\<rparr>
      in store_log e c3 st5)"

text \<open>
  \<open>Orchestrator.run_schedule_optimization\<close> with the two collaborators as parameters, and
  with the collaborators of tools.py, as the source has it. The method returns nothing:
  its report is the answer of the last contribution it appends to the store.
\<close>

definition run_schedule_optimization_with ::
  "(nat \<Rightarrow> int \<Rightarrow> string) \<Rightarrow> (nat \<Rightarrow> string \<Rightarrow> string \<Rightarrow> string \<Rightarrow> bool) \<Rightarrow>
   env \<Rightarrow> string \<Rightarrow> Orchestrator \<Rightarrow> error + Orchestrator" where
  "run_schedule_optimization_with find_slot book e transcript st =
     bind_error (HuggingFaceAgent_init e ''TranscriptSummarizer'' ''facebook/bart-large-cnn'')
       (\<lambda>summarizer.
     bind_error (HuggingFaceAgent_init e ''ActionItemExtractor'' ''microsoft/phi-2'') (\<lambda>extractor.
     bind_error (HuggingFaceAgent_init e ''Moderator'' ''microsoft/phi-2'') (\<lambda>m.
       Inr (schedule_steps find_slot book e transcript summarizer extractor
              (st\<lparr>agents := [(''TranscriptSummarizer'', summarizer),
                              (''ActionItemExtractor'', extractor)],
                  moderator := Some m\<rparr>)))))"

definition run_schedule_optimization :: "env \<Rightarrow> string \<Rightarrow> Orchestrator \<Rightarrow> error + Orchestrator" where
  "run_schedule_optimization e transcript st =
     run_schedule_optimization_with (find_available_calendar_slot e) book_calendar_event
       e transcript st"

definition schedule_report :: "Orchestrator \<Rightarrow> string" where
  "schedule_report st = answer (contrib (last (rows (store st))))"

section \<open>Observing a run\<close>

text \<open>
  What a list of events did: the contributions it appended to the store, the board it
  leaves when it starts from the board \<open>b\<close>, the keys it wrote on the board, and its calls
  of the two tools. The events of a run from \<open>st\<close> to \<open>st'\<close> are those that \<open>st'\<close> has beyond
  \<open>st\<close>.
\<close>

fun logged :: "event list \<Rightarrow> Contribution list" where
  "logged [] = []"
| "logged (StoreLog c # evs) = c # logged evs"
| "logged (ev # evs) = logged evs"

fun board_after :: "event list \<Rightarrow> (string \<times> Contribution) list \<Rightarrow> (string \<times> Contribution) list" where
  "board_after [] b = b"
| "board_after (BoardPut k c # evs) b = board_after evs (AList.update k c b)"
| "board_after (ev # evs) b = board_after evs b"

fun is_tool_call :: "event \<Rightarrow> bool" where
  "is_tool_call (FindSlot d) = True"
| "is_tool_call (BookEvent t title descr) = True"
| "is_tool_call ev = False"

fun put_keys :: "event list \<Rightarrow> string list" where
  "put_keys [] = []"
| "put_keys (BoardPut k c # evs) = k # put_keys evs"
| "put_keys (ev # evs) = put_keys evs"

definition tool_calls :: "event list \<Rightarrow> event list" where
  "tool_calls evs = filter is_tool_call evs"

definition run_events :: "Orchestrator \<Rightarrow> Orchestrator \<Rightarrow> event list" where
  "run_events st st' = drop (length (trace st)) (trace st')"

text \<open>
  The store is ahead of the board along the events \<open>evs\<close>, which start from the board \<open>b\<close>
  with the contributions \<open>base\<close> in the store: at every point, the contributions on the
  board are among those in the store, counted with their multiplicity.
\<close>

definition store_ahead ::
  "Contribution list \<Rightarrow> (string \<times> Contribution) list \<Rightarrow> event list \<Rightarrow> bool" where
  "store_ahead base b evs =
     (\<forall>p \<in> set (prefixes evs). mset (map snd (board_after p b)) \<subseteq># mset (base @ logged p))"

text \<open>
  The rounds \<open>rs\<close> run one after the other whatever the moderator answers: the moderator's
  answers, and the state at the end. The loop of the workflow is this as long as no
  answer is a conclusion.
\<close>

fun all_rounds ::
  "env \<Rightarrow> string \<Rightarrow> agent \<Rightarrow> int list \<Rightarrow> Orchestrator \<Rightarrow> string list \<times> Orchestrator" where
  "all_rounds e task m [] st = ([], st)"
| "all_rounds e task m (r # rs) st =
     (let (mod_output, st') = research_round e task m r st;
          (outputs, st'') = all_rounds e task m rs st'
      in (mod_output # outputs, st''))"


text \<open>
  A part of a run from \<open>st\<close> to \<open>st'\<close> with the events \<open>evs\<close>: the trace grows by \<open>evs\<close>, the
  store and the board change as \<open>evs\<close> say, and the store stays ahead of the board.
\<close>

definition advances :: "Orchestrator \<Rightarrow> Orchestrator \<Rightarrow> event list \<Rightarrow> bool" where
  "advances st st' evs \<longleftrightarrow>
     trace st' = trace st @ evs
     \<and> map contrib (rows (store st')) = map contrib (rows (store st)) @ logged evs
     \<and> board st' = board_after evs (board st)
     \<and> rounds st' = rounds st \<and> agents st' = agents st \<and> use_hf st' = use_hf st
     \<and> (\<forall>base. mset (map snd (board st)) \<subseteq># mset base \<longrightarrow> store_ahead base (board st) evs)"

text \<open>
  A client of an \<open>Orchestrator\<close>: the workflows it invokes, one after the other, on the same
  object. An exception ends the sequence.
\<close>

datatype invocation = Research string | Schedule string

fun invoke_all :: "env \<Rightarrow> invocation list \<Rightarrow> Orchestrator \<Rightarrow> error + Orchestrator" where
  "invoke_all e [] st = Inr st"
| "invoke_all e (Research task # ws) st =
     bind_error (run_research_collaboration e task st) (\<lambda>(res, st'). invoke_all e ws st')"
| "invoke_all e (Schedule transcript # ws) st =
     bind_error (run_schedule_optimization e transcript st) (\<lambda>st'. invoke_all e ws st')"

text \<open>
  The invariant of an \<open>Orchestrator\<close> whose store held the contributions \<open>base\<close> when it was
  made: the store has been ahead of the board all along its trace, and board and store are
  what the trace says.
\<close>

definition orchestrator_inv :: "Contribution list \<Rightarrow> Orchestrator \<Rightarrow> bool" where
  "orchestrator_inv base st \<longleftrightarrow>
     store_ahead [] [] (trace st)
     \<and> board st = board_after (trace st) []
     \<and> map contrib (rows (store st)) = base @ logged (trace st)"

text \<open>
  An environment for concrete runs: the pipelines load when \<open>ok\<close>, every pipeline answers
  with the text \<open>reply\<close>, the clock counts the calls.
\<close>

definition fixed_env :: "bool \<Rightarrow> string \<Rightarrow> env" where
  "fixed_env ok reply =
     \<lparr>pipeline_ok = (\<lambda>task model. ok),
      pipe_run = (\<lambda>n task model input. Inr reply),
      time_time = real,
      now_plus_3h = (\<lambda>n. ''2026-11-03 15:00'')\<rparr>"

section \<open>The history store: properties\<close>



lemma rows_log: "map contrib (rows (HistoryStore_log now c s)) = map contrib (rows s) @ [c]"
  by (simp add: HistoryStore_log_def Let_def)







section \<open>The board: properties\<close>

text \<open>The lookup in the loop of \<open>_board_text\<close> never misses.\<close>

lemma board_key_present: "k \<in> set (sort (map fst b)) \<Longrightarrow> map_of b k \<noteq> None"
  by (simp add: map_of_eq_None_iff)

lemma board_text_map_of:
  assumes "distinct (map fst b)" "distinct (map fst b')" "map_of b = map_of b'"
  shows "board_text b = board_text b'"
proof -
  have keys: "set (map fst b) = set (map fst b')"
    using assms(3) by (metis dom_map_of_conv_image_fst set_map)
  have "sort (map fst b) = sort (map fst b')"
    using assms(1,2) keys
    by (intro sorted_distinct_set_unique) simp_all
  moreover have "board_block b = board_block b'"
    by (simp add: board_block_def fun_eq_iff assms(3))
  moreover have "b = [] \<longleftrightarrow> b' = []"
    using keys by auto
  ultimately show ?thesis
    by (simp add: board_text_def)
qed

text \<open>
  Claim C4. The rendering of the board depends only on the mapping from keys to
  contributions, not on the order of insertion. The empty board renders as \<open>(empty)\<close>; a
  board that is not empty renders as the blocks of its keys in ascending lexicographic
  order, each a header line naming the key followed by the answer, with a blank line
  between blocks. For the keys \<open>A-r1\<close> and \<open>B-r1\<close>, inserted in either order, the block of
  \<open>A-r1\<close> comes first.
\<close>

theorem board_text_deterministic:
  "board_text [] = ''(empty)''
   \<and> (b \<noteq> [] \<longrightarrow>
        board_text b =
          str_join ''\<newline>\<newline>''
            (map (\<lambda>k. ''--- Contribution from '' @ k @ '' ---\<newline>'' @ answer (the (map_of b k)))
               (sort (map fst b)))
        \<and> sorted (sort (map fst b)) \<and> set (sort (map fst b)) = fst ` set b)
   \<and> (distinct (map fst b) \<and> distinct (map fst b') \<and> map_of b = map_of b'
        \<longrightarrow> board_text b = board_text b')
   \<and> board_text [(''A-r1'', ca), (''B-r1'', cb)]
        = ''--- Contribution from A-r1 ---\<newline>'' @ answer ca @ ''\<newline>\<newline>''
            @ ''--- Contribution from B-r1 ---\<newline>'' @ answer cb
   \<and> board_text [(''B-r1'', cb), (''A-r1'', ca)]
        = board_text [(''A-r1'', ca), (''B-r1'', cb)]"
proof -
  have e: "board_text [] = ''(empty)''"
    by (simp add: board_text_def)
  have n: "b \<noteq> [] \<longrightarrow>
        board_text b =
          str_join ''\<newline>\<newline>''
            (map (\<lambda>k. ''--- Contribution from '' @ k @ '' ---\<newline>'' @ answer (the (map_of b k)))
               (sort (map fst b)))
        \<and> sorted (sort (map fst b)) \<and> set (sort (map fst b)) = fst ` set b"
    by (simp add: board_text_def board_block_def [abs_def] Let_def)
  have d: "distinct (map fst b) \<and> distinct (map fst b') \<and> map_of b = map_of b'
        \<longrightarrow> board_text b = board_text b'"
    using board_text_map_of by blast
  have x: "board_text [(''A-r1'', ca), (''B-r1'', cb)]
        = ''--- Contribution from A-r1 ---\<newline>'' @ answer ca @ ''\<newline>\<newline>''
            @ ''--- Contribution from B-r1 ---\<newline>'' @ answer cb"
    by (simp add: board_text_def board_block_def)
  have y: "board_text [(''B-r1'', cb), (''A-r1'', ca)]
        = board_text [(''A-r1'', ca), (''B-r1'', cb)]"
    by (simp add: board_text_def board_block_def)
  show ?thesis
    using e n d x y by blast
qed

theorem board_text_deterministic_witness:
  "[(''Moderator-r1'', \<lparr>role = ''Moderator'', answer = ''NEXT_STEP'', confidence = 0.9,
                         rationale = ''review'', iteration = 1\<rparr>),
    (''AnalysisBot-r1'', \<lparr>role = ''AnalysisBot'', answer = ''Key points'', confidence = 0.8,
                           rationale = ''generated'', iteration = 1\<rparr>)] \<noteq> []
   \<and> distinct [''Moderator-r1'', ''AnalysisBot-r1'']
   \<and> distinct [''AnalysisBot-r1'', ''Moderator-r1'']
   \<and> board_text
       [(''Moderator-r1'', \<lparr>role = ''Moderator'', answer = ''NEXT_STEP'', confidence = 0.9,
                            rationale = ''review'', iteration = 1\<rparr>),
        (''AnalysisBot-r1'', \<lparr>role = ''AnalysisBot'', answer = ''Key points'', confidence = 0.8,
                              rationale = ''generated'', iteration = 1\<rparr>)]
     = board_text
       [(''AnalysisBot-r1'', \<lparr>role = ''AnalysisBot'', answer = ''Key points'', confidence = 0.8,
                              rationale = ''generated'', iteration = 1\<rparr>),
        (''Moderator-r1'', \<lparr>role = ''Moderator'', answer = ''NEXT_STEP'', confidence = 0.9,
                            rationale = ''review'', iteration = 1\<rparr>)]
   \<and> board_text
       [(''Moderator-r1'', \<lparr>role = ''Moderator'', answer = ''NEXT_STEP'', confidence = 0.9,
                            rationale = ''review'', iteration = 1\<rparr>),
        (''AnalysisBot-r1'', \<lparr>role = ''AnalysisBot'', answer = ''Key points'', confidence = 0.8,
                              rationale = ''generated'', iteration = 1\<rparr>)]
     = ''--- Contribution from AnalysisBot-r1 ---\<newline>Key points\<newline>\<newline>--- Contribution from Moderator-r1 ---\<newline>NEXT_STEP''"
proof -
  let ?m = "\<lparr>role = ''Moderator'', answer = ''NEXT_STEP'', confidence = 0.9,
             rationale = ''review'', iteration = 1\<rparr>"
  let ?a = "\<lparr>role = ''AnalysisBot'', answer = ''Key points'', confidence = 0.8,
             rationale = ''generated'', iteration = 1\<rparr>"
  let ?b = "[(''Moderator-r1'', ?m), (''AnalysisBot-r1'', ?a)]"
  let ?b' = "[(''AnalysisBot-r1'', ?a), (''Moderator-r1'', ?m)]"
  have ne: "?b \<noteq> []"
    by simp
  have d: "distinct (map fst ?b)" and d': "distinct (map fst ?b')"
    by simp_all
  have m: "map_of ?b = map_of ?b'"
    by (rule ext) simp
  have "board_text ?b = board_text ?b'"
    using board_text_deterministic [of ?b ?b'] d d' m by blast
  moreover have "board_text ?b =
      str_join ''\<newline>\<newline>''
        (map (\<lambda>k. ''--- Contribution from '' @ k @ '' ---\<newline>'' @ answer (the (map_of ?b k)))
           (sort (map fst ?b)))"
    using board_text_deterministic [of ?b ?b'] ne by blast
  ultimately show ?thesis
    by simp
qed

section \<open>The orchestrator: steps and rounds\<close>


lemma call_generate_fields [simp]:
  "fst (call_generate e a task bt st) = generate e (length (trace st)) a task bt"
  "board (snd (call_generate e a task bt st)) = board st"
  "store (snd (call_generate e a task bt st)) = store st"
  "rounds (snd (call_generate e a task bt st)) = rounds st"
  "agents (snd (call_generate e a task bt st)) = agents st"
  "use_hf (snd (call_generate e a task bt st)) = use_hf st"
  "trace (snd (call_generate e a task bt st)) = trace st @ [AgentCall (agent_role a) task bt]"
  by (simp_all add: call_generate_def)

lemma store_log_fields [simp]:
  "board (store_log e c st) = board st"
  "store (store_log e c st) = HistoryStore_log (time_time e (length (trace st))) c (store st)"
  "rounds (store_log e c st) = rounds st"
  "agents (store_log e c st) = agents st"
  "use_hf (store_log e c st) = use_hf st"
  "trace (store_log e c st) = trace st @ [StoreLog c]"
  by (simp_all add: store_log_def)

lemma board_put_fields [simp]:
  "board (board_put k c st) = AList.update k c (board st)"
  "store (board_put k c st) = store st"
  "rounds (board_put k c st) = rounds st"
  "agents (board_put k c st) = agents st"
  "use_hf (board_put k c st) = use_hf st"
  "trace (board_put k c st) = trace st @ [BoardPut k c]"
  by (simp_all add: board_put_def)

lemma sublist_transitive: "sublist xs ys \<Longrightarrow> sublist ys zs \<Longrightarrow> sublist xs zs"
  by (rule sublist_order.order_trans)

lemma sublist_str_join: "p \<in> set ps \<Longrightarrow> sublist p (str_join sep ps)"
proof (induction sep ps rule: str_join.induct)
  case (3 sep p' q ps)
  show ?case
  proof (cases "p = p'")
    case True
    then show ?thesis by simp
  next
    case False
    with 3 have "sublist p (str_join sep (q # ps))" by simp
    then have "sublist p ((p' @ sep) @ str_join sep (q # ps))"
      by (meson sublist_append_leftI sublist_transitive)
    then show ?thesis by simp
  qed
qed simp_all

lemma answer_on_board:
  assumes "map_of b k = Some c"
  shows "sublist (answer c) (board_text b)"
proof -
  have kb: "k \<in> set (sort (map fst b))"
    using assms by (metis domI domIff map_of_eq_None_iff set_map set_sort)
  have ne: "b \<noteq> []"
    using assms by auto
  have "board_block b k = (''--- Contribution from '' @ k @ '' ---\<newline>'') @ answer c"
    using assms by (simp add: board_block_def)
  then have "sublist (answer c) (board_block b k)"
    by (simp only: sublist_append_leftI)
  moreover have "sublist (board_block b k) (board_text b)"
    using kb ne by (simp add: board_text_def sublist_str_join)
  ultimately show ?thesis
    by (rule sublist_transitive)
qed

lemma logged_append [simp]: "logged (xs @ ys) = logged xs @ logged ys"
  by (induction xs rule: logged.induct) simp_all

lemma run_events_append [simp]: "trace st' = trace st @ evs \<Longrightarrow> run_events st st' = evs"
  by (simp add: run_events_def)

lemma agent_turn_fields:
  "board (agent_turn e task r ra st) =
     AList.update (fst ra @ ''-r'' @ str_int r)
       \<lparr>role = fst ra, answer = generate e (length (trace st)) (snd ra) task (board_text (board st)),
        confidence = 0.8, rationale = ''generated'', iteration = r\<rparr> (board st)"
  "trace (agent_turn e task r ra st) =
     trace st @
       [AgentCall (agent_role (snd ra)) task (board_text (board st)),
        StoreLog \<lparr>role = fst ra,
                  answer = generate e (length (trace st)) (snd ra) task (board_text (board st)),
                  confidence = 0.8, rationale = ''generated'', iteration = r\<rparr>,
        BoardPut (fst ra @ ''-r'' @ str_int r)
          \<lparr>role = fst ra,
           answer = generate e (length (trace st)) (snd ra) task (board_text (board st)),
           confidence = 0.8, rationale = ''generated'', iteration = r\<rparr>]"
  "store (agent_turn e task r ra st) =
     HistoryStore_log (time_time e (Suc (length (trace st))))
       \<lparr>role = fst ra, answer = generate e (length (trace st)) (snd ra) task (board_text (board st)),
        confidence = 0.8, rationale = ''generated'', iteration = r\<rparr> (store st)"
  "rounds (agent_turn e task r ra st) = rounds st"
  "agents (agent_turn e task r ra st) = agents st"
  "use_hf (agent_turn e task r ra st) = use_hf st"
  by (simp_all add: agent_turn_def Let_def case_prod_beta)

lemma moderator_turn_fields:
  "fst (moderator_turn e task r m st) = generate e (length (trace st)) m task (board_text (board st))"
  "board (snd (moderator_turn e task r m st)) =
     AList.update (''Moderator-r'' @ str_int r)
       \<lparr>role = ''Moderator'', answer = generate e (length (trace st)) m task (board_text (board st)),
        confidence = 0.9, rationale = ''review'', iteration = r\<rparr> (board st)"
  "trace (snd (moderator_turn e task r m st)) =
     trace st @
       [AgentCall (agent_role m) task (board_text (board st)),
        StoreLog \<lparr>role = ''Moderator'',
                  answer = generate e (length (trace st)) m task (board_text (board st)),
                  confidence = 0.9, rationale = ''review'', iteration = r\<rparr>,
        BoardPut (''Moderator-r'' @ str_int r)
          \<lparr>role = ''Moderator'',
           answer = generate e (length (trace st)) m task (board_text (board st)),
           confidence = 0.9, rationale = ''review'', iteration = r\<rparr>]"
  "store (snd (moderator_turn e task r m st)) =
     HistoryStore_log (time_time e (Suc (length (trace st))))
       \<lparr>role = ''Moderator'', answer = generate e (length (trace st)) m task (board_text (board st)),
        confidence = 0.9, rationale = ''review'', iteration = r\<rparr> (store st)"
  "rounds (snd (moderator_turn e task r m st)) = rounds st"
  "agents (snd (moderator_turn e task r m st)) = agents st"
  "use_hf (snd (moderator_turn e task r m st)) = use_hf st"
  by (simp_all add: moderator_turn_def Let_def case_prod_beta)

lemma FakeLLM_research_france:
  "sublist ''capital of france'' (str_lower task) \<Longrightarrow>
     FakeLLM_generate ''ResearchBot'' task bt
       = ''Paris is the capital of France, known for the Eiffel Tower.''"
  by (simp add: FakeLLM_generate_def)

lemma FakeLLM_research_india:
  "sublist ''capital of india'' (str_lower task) \<Longrightarrow>
   \<not> sublist ''capital of france'' (str_lower task) \<Longrightarrow>
     FakeLLM_generate ''ResearchBot'' task bt = ''New Delhi''"
  by (simp add: FakeLLM_generate_def)

lemma not_in_empty_sentinel:
  "\<not> sublist ''Paris'' ''(empty)''" "\<not> sublist ''New Delhi'' ''(empty)''"
  by code_simp+

lemma FakeLLM_moderator_concludes:
  assumes "sublist ''Paris'' bt \<or> sublist ''New Delhi'' bt"
  shows "FakeLLM_generate ''Moderator'' task bt = ''CONCLUSION: The report is complete.''"
proof -
  have "bt \<noteq> []"
    using assms by auto
  moreover have "bt \<noteq> ''(empty)''"
    using assms not_in_empty_sentinel by metis
  ultimately show ?thesis
    using assms by (simp add: FakeLLM_generate_def)
qed

lemma conclusion_fixed:
  "is_conclusion ''CONCLUSION: The report is complete.''"
  "conclusion_report ''CONCLUSION: The report is complete.'' = ''The report is complete.''"
  by code_simp+

lemma paris_in_answer:
  "sublist ''Paris'' ''Paris is the capital of France, known for the Eiffel Tower.''"
  by code_simp

lemma FakeLLM_research_mentions:
  assumes "sublist ''capital of france'' (str_lower task) \<or> sublist ''capital of india'' (str_lower task)"
  shows "sublist ''Paris'' (FakeLLM_generate ''ResearchBot'' task bt)
         \<or> sublist ''New Delhi'' (FakeLLM_generate ''ResearchBot'' task bt)"
proof (cases "sublist ''capital of france'' (str_lower task)")
  case True
  then show ?thesis
    by (simp only: FakeLLM_research_france paris_in_answer simp_thms)
next
  case False
  with assms have "FakeLLM_generate ''ResearchBot'' task bt = ''New Delhi''"
    by (simp only: FakeLLM_research_india simp_thms)
  then show ?thesis
    by (simp only: sublist_order.order_refl simp_thms)
qed

lemma research_agents_fake:
  "research_agents e False =
     Inr ([(''ResearchBot'', FakeLLM ''ResearchBot''), (''CreativeBot'', FakeLLM ''CreativeBot''),
           (''AnalysisBot'', FakeLLM ''AnalysisBot'')], FakeLLM ''Moderator'')"
  by (simp add: research_agents_def)

lemma fake_round_one_concludes:
  assumes hf: "\<not> use_hf st" and n: "1 \<le> rounds st"
    and t: "sublist ''capital of france'' (str_lower task) \<or> sublist ''capital of india'' (str_lower task)"
  shows "\<exists>res st'. run_research_collaboration e task st = Inr (res, st')
           \<and> result_summary res = ''The report is complete.''
           \<and> map (\<lambda>c. (role c, iteration c)) (logged (run_events st st'))
               = [(''ResearchBot'', 1), (''CreativeBot'', 1), (''AnalysisBot'', 1), (''Moderator'', 1)]
           \<and> answer (last (logged (run_events st st'))) = ''CONCLUSION: The report is complete.''"
proof -
  define ags where "ags = [(''ResearchBot'', FakeLLM ''ResearchBot''),
    (''CreativeBot'', FakeLLM ''CreativeBot''), (''AnalysisBot'', FakeLLM ''AnalysisBot'')]"
  define m where "m = FakeLLM ''Moderator''"
  define st1 where "st1 = st\<lparr>agents := ags, moderator := Some m\<rparr>"
  define sa where "sa = agent_turn e task 1 (''ResearchBot'', FakeLLM ''ResearchBot'') st1"
  define sb where "sb = agent_turn e task 1 (''CreativeBot'', FakeLLM ''CreativeBot'') sa"
  define sc where "sc = agent_turn e task 1 (''AnalysisBot'', FakeLLM ''AnalysisBot'') sb"
  define c1 where "c1 = \<lparr>role = ''ResearchBot'',
    answer = FakeLLM_generate ''ResearchBot'' task (board_text (board st1)),
    confidence = 0.8, rationale = ''generated'', iteration = 1\<rparr>"
  have fold_eq: "fold (agent_turn e task 1) (agents st1) st1 = sc"
    by (simp add: st1_def ags_def sc_def sb_def sa_def)
  have ba: "map_of (board sa) (''ResearchBot'' @ ''-r'' @ str_int 1) = Some c1"
    by (simp add: sa_def agent_turn_fields update_conv' c1_def)
  have bb: "map_of (board sb) (''ResearchBot'' @ ''-r'' @ str_int 1) = Some c1"
    using ba by (simp add: sb_def agent_turn_fields update_conv')
  have bc: "map_of (board sc) (''ResearchBot'' @ ''-r'' @ str_int 1) = Some c1"
    using bb by (simp add: sc_def agent_turn_fields update_conv')
  have on_board: "sublist (answer c1) (board_text (board sc))"
    using bc by (rule answer_on_board)
  have "sublist ''Paris'' (answer c1) \<or> sublist ''New Delhi'' (answer c1)"
    using FakeLLM_research_mentions [OF t] by (simp add: c1_def)
  then have mention: "sublist ''Paris'' (board_text (board sc))
      \<or> sublist ''New Delhi'' (board_text (board sc))"
    using on_board sublist_transitive by blast
  define mo where "mo = ''CONCLUSION: The report is complete.''"
  have mo: "fst (moderator_turn e task 1 m sc) = mo"
    using FakeLLM_moderator_concludes [OF mention]
    by (simp add: moderator_turn_fields m_def mo_def)
  define sd where "sd = snd (moderator_turn e task 1 m sc)"
  have round: "research_round e task m 1 st1 = (mo, sd)"
    using mo by (simp add: research_round_def fold_eq sd_def prod_eq_iff)
  have up: "[1..rounds st] = 1 # [2..rounds st]"
    using n by (simp add: upto_rec1)
  have loop: "research_rounds e task m [1..rounds st] st1 = (''The report is complete.'', sd)"
    using conclusion_fixed by (simp add: up round mo_def)
  have run: "run_research_collaboration e task st
      = Inr (\<lparr>result_board = board sd, result_summary = ''The report is complete.''\<rparr>, sd)"
    using hf loop
    by (simp add: run_research_collaboration_def research_agents_fake bind_error_def
          ags_def [symmetric] m_def [symmetric] st1_def [symmetric])
  have tr: "trace sd = trace st @ run_events st sd"
    by (simp add: sd_def sc_def sb_def sa_def st1_def moderator_turn_fields agent_turn_fields
          run_events_def)
  have lg: "map (\<lambda>c. (role c, iteration c)) (logged (run_events st sd))
      = [(''ResearchBot'', 1), (''CreativeBot'', 1), (''AnalysisBot'', 1), (''Moderator'', 1)]"
    by (simp add: sd_def sc_def sb_def sa_def st1_def moderator_turn_fields agent_turn_fields
          run_events_def)
  have la: "answer (last (logged (run_events st sd))) = fst (moderator_turn e task 1 m sc)"
    by (simp add: sd_def sc_def sb_def sa_def st1_def moderator_turn_fields agent_turn_fields
          run_events_def)
  show ?thesis
    using run lg la mo by (simp add: mo_def)
qed

text \<open>
  Claim C6 (amended). The rule-based agent is a function of its role, the task and the
  board text. As ResearchBot it answers a task whose lower-casing contains
  \<open>capital of france\<close> with a text containing \<open>Paris\<close>, and a task whose lower-casing
  contains \<open>capital of india\<close> but not \<open>capital of france\<close> with exactly \<open>New Delhi\<close>. As
  Moderator it answers a board text containing \<open>Paris\<close> or \<open>New Delhi\<close> with a text that
  starts with \<open>CONCLUSION:\<close>. So on a task of either kind the research workflow with the
  rule-based agents and at least one round ends in its first round, with the report
  \<open>The report is complete.\<close>
\<close>

theorem FakeLLM_rules:
  "(sublist ''capital of france'' (str_lower task)
      \<longrightarrow> sublist ''Paris'' (FakeLLM_generate ''ResearchBot'' task bt))
   \<and> (sublist ''capital of india'' (str_lower task)
        \<and> \<not> sublist ''capital of france'' (str_lower task)
      \<longrightarrow> FakeLLM_generate ''ResearchBot'' task bt = ''New Delhi'')
   \<and> (sublist ''Paris'' bt \<or> sublist ''New Delhi'' bt
      \<longrightarrow> prefix ''CONCLUSION:'' (FakeLLM_generate ''Moderator'' task bt)
          \<and> is_conclusion (FakeLLM_generate ''Moderator'' task bt))
   \<and> (\<not> use_hf st \<and> 1 \<le> rounds st
        \<and> (sublist ''capital of france'' (str_lower task)
            \<or> sublist ''capital of india'' (str_lower task))
      \<longrightarrow> (\<exists>res st'. run_research_collaboration e task st = Inr (res, st')
             \<and> result_summary res = ''The report is complete.''
             \<and> map (\<lambda>c. (role c, iteration c)) (logged (run_events st st'))
                 = [(''ResearchBot'', 1), (''CreativeBot'', 1), (''AnalysisBot'', 1),
                    (''Moderator'', 1)]
             \<and> answer (last (logged (run_events st st')))
                 = ''CONCLUSION: The report is complete.''))"
proof -
  have a: "sublist ''capital of france'' (str_lower task)
      \<longrightarrow> sublist ''Paris'' (FakeLLM_generate ''ResearchBot'' task bt)"
  proof
    assume "sublist ''capital of france'' (str_lower task)"
    then show "sublist ''Paris'' (FakeLLM_generate ''ResearchBot'' task bt)"
      by (simp only: FakeLLM_research_france paris_in_answer)
  qed
  have b: "sublist ''capital of india'' (str_lower task)
        \<and> \<not> sublist ''capital of france'' (str_lower task)
      \<longrightarrow> FakeLLM_generate ''ResearchBot'' task bt = ''New Delhi''"
    using FakeLLM_research_india by blast
  have "prefix ''CONCLUSION:'' ''CONCLUSION: The report is complete.''"
    by code_simp
  then have c: "sublist ''Paris'' bt \<or> sublist ''New Delhi'' bt
      \<longrightarrow> prefix ''CONCLUSION:'' (FakeLLM_generate ''Moderator'' task bt)
          \<and> is_conclusion (FakeLLM_generate ''Moderator'' task bt)"
    using conclusion_fixed(1) FakeLLM_moderator_concludes [of bt task] by metis
  show ?thesis
    using a b c fake_round_one_concludes [of st task e] by blast
qed

theorem FakeLLM_rules_witness:
  "sublist ''capital of india'' (str_lower ''What is the capital of India?'')
   \<and> \<not> sublist ''capital of france'' (str_lower ''What is the capital of India?'')
   \<and> FakeLLM_generate ''ResearchBot'' ''What is the capital of India?'' ''(empty)'' = ''New Delhi''
   \<and> \<not> use_hf (Orchestrator_init (HistoryStore_init ''collab_history_test.db'') 1 False)
   \<and> 1 \<le> rounds (Orchestrator_init (HistoryStore_init ''collab_history_test.db'') 1 False)
   \<and> (case run_research_collaboration (fixed_env False []) ''What is the capital of India?''
              (Orchestrator_init (HistoryStore_init ''collab_history_test.db'') 1 False) of
         Inl err \<Rightarrow> [] | Inr (res, st') \<Rightarrow> result_summary res) = ''The report is complete.''"
proof -
  let ?t = "''What is the capital of India?''"
  let ?st = "Orchestrator_init (HistoryStore_init ''collab_history_test.db'') 1 False"
  have i: "sublist ''capital of india'' (str_lower ?t)"
    by code_simp
  have f: "\<not> sublist ''capital of france'' (str_lower ?t)"
    by code_simp
  have h: "\<not> use_hf ?st" and n: "1 \<le> rounds ?st"
    by (simp_all add: Orchestrator_init_def)
  note r = FakeLLM_rules [of ?t "''(empty)''" ?st "fixed_env False []"]
  have nd: "FakeLLM_generate ''ResearchBot'' ?t ''(empty)'' = ''New Delhi''"
    using r i f by blast
  obtain res st' where "run_research_collaboration (fixed_env False []) ?t ?st = Inr (res, st')"
    and "result_summary res = ''The report is complete.''"
    using r i h n by blast
  then show ?thesis
    using i f h n nd by simp
qed

text \<open>
  The claim as it was stated fails on a task that names both capitals: the check for
  France comes first.
\<close>

theorem FakeLLM_india_counterexample:
  "sublist ''capital of india'' (str_lower ''Capital of France or capital of India?'')
   \<and> FakeLLM_generate ''ResearchBot'' ''Capital of France or capital of India?'' ''(empty)''
       \<noteq> ''New Delhi''"
  by code_simp

section \<open>Runs as sequences of events\<close>


lemma board_after_append [simp]: "board_after (xs @ ys) b = board_after ys (board_after xs b)"
  by (induction xs b rule: board_after.induct) simp_all

lemma tool_calls_append [simp]: "tool_calls (xs @ ys) = tool_calls xs @ tool_calls ys"
  by (simp add: tool_calls_def)

lemma mset_update_subset:
  "mset (map snd (AList.update k c b)) \<subseteq># add_mset c (mset (map snd b))"
proof (induction b)
  case Nil
  then show ?case by simp
next
  case (Cons p b)
  then show ?case
    by (cases "fst p = k") (simp_all add: mset_subset_eq_add_mset_cancel add_mset_commute)
qed

lemma store_ahead_Nil: "store_ahead base b [] \<longleftrightarrow> mset (map snd b) \<subseteq># mset base"
  by (simp add: store_ahead_def)

lemma store_ahead_end:
  "store_ahead base b evs \<Longrightarrow> mset (map snd (board_after evs b)) \<subseteq># mset (base @ logged evs)"
  by (simp add: store_ahead_def)

lemma store_ahead_append:
  assumes "store_ahead base b xs" "store_ahead (base @ logged xs) (board_after xs b) ys"
  shows "store_ahead base b (xs @ ys)"
  unfolding store_ahead_def
proof
  fix p assume "p \<in> set (prefixes (xs @ ys))"
  then have "prefix p (xs @ ys)" by simp
  then consider "prefix p xs" | ys' where "p = xs @ ys'" "prefix ys' ys"
    by (auto simp: prefix_append)
  then show "mset (map snd (board_after p b)) \<subseteq># mset (base @ logged p)"
  proof cases
    case 1
    then show ?thesis using assms(1) by (simp add: store_ahead_def)
  next
    case 2
    then show ?thesis using assms(2) by (simp add: store_ahead_def)
  qed
qed

lemma store_ahead_turn:
  assumes "mset (map snd b) \<subseteq># mset base"
  shows "store_ahead base b [AgentCall rl task bt, StoreLog c, BoardPut k c]"
proof -
  have "add_mset c (mset (map snd b)) \<subseteq># add_mset c (mset base)"
    using assms by simp
  then have "mset (map snd (AList.update k c b)) \<subseteq># add_mset c (mset base)"
    using mset_update_subset [of k c b] by (rule subset_mset.order_trans [rotated])
  moreover have "mset (map snd b) \<subseteq># add_mset c (mset base)"
    using assms by (rule subset_mset.order_trans) simp
  ultimately show ?thesis
    using assms by (simp add: store_ahead_def)
qed

lemma advances_refl: "advances st st []"
  by (simp add: advances_def store_ahead_Nil)

lemma advances_trans:
  assumes "advances st st' xs" "advances st' st'' ys"
  shows "advances st st'' (xs @ ys)"
proof -
  have "store_ahead base (board st) (xs @ ys)" if b: "mset (map snd (board st)) \<subseteq># mset base" for base
  proof -
    have x: "store_ahead base (board st) xs"
      using assms(1) b by (simp add: advances_def)
    then have "mset (map snd (board st')) \<subseteq># mset (base @ logged xs)"
      using assms(1) store_ahead_end [OF x] by (simp add: advances_def)
    then have "store_ahead (base @ logged xs) (board st') ys"
      using assms(2) by (simp add: advances_def)
    then show ?thesis
      using x assms(1) by (simp add: store_ahead_append advances_def)
  qed
  then show ?thesis
    using assms by (simp add: advances_def)
qed

lemma rows_store_log [simp]:
  "map contrib (rows (HistoryStore_log now c s)) = map contrib (rows s) @ [c]"
  by (rule rows_log)

lemma advances_agent_turn:
  "advances st (agent_turn e task r ra st)
     [AgentCall (agent_role (snd ra)) task (board_text (board st)),
      StoreLog \<lparr>role = fst ra,
                answer = generate e (length (trace st)) (snd ra) task (board_text (board st)),
                confidence = 0.8, rationale = ''generated'', iteration = r\<rparr>,
      BoardPut (fst ra @ ''-r'' @ str_int r)
        \<lparr>role = fst ra,
         answer = generate e (length (trace st)) (snd ra) task (board_text (board st)),
         confidence = 0.8, rationale = ''generated'', iteration = r\<rparr>]"
  by (simp add: advances_def agent_turn_fields store_ahead_turn)

lemma advances_moderator_turn:
  "advances st (snd (moderator_turn e task r m st))
     [AgentCall (agent_role m) task (board_text (board st)),
      StoreLog \<lparr>role = ''Moderator'',
                answer = generate e (length (trace st)) m task (board_text (board st)),
                confidence = 0.9, rationale = ''review'', iteration = r\<rparr>,
      BoardPut (''Moderator-r'' @ str_int r)
        \<lparr>role = ''Moderator'',
         answer = generate e (length (trace st)) m task (board_text (board st)),
         confidence = 0.9, rationale = ''review'', iteration = r\<rparr>]"
  by (simp add: advances_def moderator_turn_fields store_ahead_turn)


lemma advances_fold:
  "\<exists>evs. advances st (fold (agent_turn e task r) ags st) evs
     \<and> map (\<lambda>c. (role c, iteration c)) (logged evs) = map (\<lambda>ra. (fst ra, r)) ags
     \<and> tool_calls evs = []"
proof (induction ags arbitrary: st)
  case Nil
  show ?case
    using advances_refl [of st] by (intro exI [of _ "[]"]) (simp add: tool_calls_def)
next
  case (Cons ra ags)
  let ?st = "agent_turn e task r ra st"
  let ?ev = "[AgentCall (agent_role (snd ra)) task (board_text (board st)),
      StoreLog \<lparr>role = fst ra,
                answer = generate e (length (trace st)) (snd ra) task (board_text (board st)),
                confidence = 0.8, rationale = ''generated'', iteration = r\<rparr>,
      BoardPut (fst ra @ ''-r'' @ str_int r)
        \<lparr>role = fst ra,
         answer = generate e (length (trace st)) (snd ra) task (board_text (board st)),
         confidence = 0.8, rationale = ''generated'', iteration = r\<rparr>]"
  obtain evs where a: "advances ?st (fold (agent_turn e task r) ags ?st) evs"
    and l: "map (\<lambda>c. (role c, iteration c)) (logged evs) = map (\<lambda>ra. (fst ra, r)) ags"
    and t: "tool_calls evs = []"
    using Cons.IH [of ?st] by blast
  have "advances st (fold (agent_turn e task r) (ra # ags) st) (?ev @ evs)"
    using advances_trans [OF advances_agent_turn a] by simp
  moreover have "map (\<lambda>c. (role c, iteration c)) (logged (?ev @ evs))
      = map (\<lambda>ra. (fst ra, r)) (ra # ags)"
    using l by simp
  moreover have "tool_calls (?ev @ evs) = []"
    using t by (simp add: tool_calls_def)
  ultimately show ?case
    by blast
qed

lemma advances_research_round:
  "\<exists>evs. advances st (snd (research_round e task m r st)) evs
     \<and> map (\<lambda>c. (role c, iteration c)) (logged evs)
         = map (\<lambda>ra. (fst ra, r)) (agents st) @ [(''Moderator'', r)]
     \<and> logged evs \<noteq> []
     \<and> answer (last (logged evs)) = fst (research_round e task m r st)
     \<and> tool_calls evs = []"
proof -
  let ?st = "fold (agent_turn e task r) (agents st) st"
  let ?ev = "[AgentCall (agent_role m) task (board_text (board ?st)),
      StoreLog \<lparr>role = ''Moderator'',
                answer = generate e (length (trace ?st)) m task (board_text (board ?st)),
                confidence = 0.9, rationale = ''review'', iteration = r\<rparr>,
      BoardPut (''Moderator-r'' @ str_int r)
        \<lparr>role = ''Moderator'',
         answer = generate e (length (trace ?st)) m task (board_text (board ?st)),
         confidence = 0.9, rationale = ''review'', iteration = r\<rparr>]"
  obtain evs where a: "advances st ?st evs"
    and l: "map (\<lambda>c. (role c, iteration c)) (logged evs) = map (\<lambda>ra. (fst ra, r)) (agents st)"
    and t: "tool_calls evs = []"
    using advances_fold [of st e task r "agents st"] by blast
  have "advances st (snd (research_round e task m r st)) (evs @ ?ev)"
    unfolding research_round_def by (rule advances_trans [OF a advances_moderator_turn])
  moreover have "map (\<lambda>c. (role c, iteration c)) (logged (evs @ ?ev))
      = map (\<lambda>ra. (fst ra, r)) (agents st) @ [(''Moderator'', r)]"
    using l by simp
  moreover have "logged (evs @ ?ev) \<noteq> []"
    by simp
  moreover have "answer (last (logged (evs @ ?ev))) = fst (research_round e task m r st)"
    by (simp add: research_round_def moderator_turn_fields)
  moreover have "tool_calls (evs @ ?ev) = []"
    using t by (simp add: tool_calls_def)
  ultimately show ?thesis
    by blast
qed



lemma advances_research_rounds:
  "\<exists>evs. advances st (snd (research_rounds e task m rs st)) evs \<and> tool_calls evs = []"
proof (induction rs arbitrary: st)
  case Nil
  show ?case
    using advances_refl [of st] by (intro exI [of _ "[]"]) (simp add: tool_calls_def)
next
  case (Cons r rs)
  let ?st = "snd (research_round e task m r st)"
  obtain xs where x: "advances st ?st xs" and xt: "tool_calls xs = []"
    using advances_research_round [of st e task m r] by blast
  show ?case
  proof (cases "is_conclusion (fst (research_round e task m r st))")
    case True
    then show ?thesis
      using x xt by (auto simp: case_prod_beta)
  next
    case False
    obtain ys where y: "advances ?st (snd (research_rounds e task m rs ?st)) ys"
      and yt: "tool_calls ys = []"
      using Cons.IH [of ?st] by blast
    have "advances st (snd (research_rounds e task m (r # rs) st)) (xs @ ys)"
      using advances_trans [OF x y] False by (simp add: case_prod_beta)
    then show ?thesis
      using xt yt by (metis tool_calls_append append_Nil)
  qed
qed


lemma moderator_never_concluding:
  "\<forall>n bt. \<not> is_conclusion (generate e n m task bt) \<Longrightarrow>
     \<forall>mo \<in> set (fst (all_rounds e task m rs st)). \<not> is_conclusion mo"
  by (induction rs arbitrary: st)
     (simp_all add: case_prod_beta research_round_def moderator_turn_fields)



section \<open>The first event of a run, and the end of the loop\<close>


lemma take1_run_events:
  assumes "trace st' = trace st @ xs" "trace st'' = trace st' @ ys" "xs \<noteq> []"
  shows "take 1 (run_events st st'') = take 1 xs"
  using assms by (cases xs) (simp_all add: run_events_def)

lemma first_event_fold:
  assumes "ags \<noteq> []"
  shows "\<exists>xs. trace (fold (agent_turn e task r) ags st) = trace st @ xs
           \<and> take 1 xs = [AgentCall (agent_role (snd (hd ags))) task (board_text (board st))]"
proof -
  obtain ra ags' where ags: "ags = ra # ags'"
    using assms by (cases ags) auto
  obtain ys where "advances (agent_turn e task r ra st)
      (fold (agent_turn e task r) ags' (agent_turn e task r ra st)) ys"
    using advances_fold by blast
  then have "trace (fold (agent_turn e task r) ags st)
      = trace st @ (AgentCall (agent_role (snd ra)) task (board_text (board st))
          # drop 1 (drop (length (trace st)) (trace (agent_turn e task r ra st))) @ ys)"
    by (simp add: ags advances_def agent_turn_fields)
  then show ?thesis
    by (intro exI conjI, assumption) (simp add: ags)
qed

lemma first_event_round:
  assumes "agents st \<noteq> []"
  shows "\<exists>xs. trace (snd (research_round e task m r st)) = trace st @ xs
           \<and> take 1 xs = [AgentCall (agent_role (snd (hd (agents st)))) task (board_text (board st))]"
proof -
  obtain xs where x: "trace (fold (agent_turn e task r) (agents st) st) = trace st @ xs"
    and h: "take 1 xs = [AgentCall (agent_role (snd (hd (agents st)))) task (board_text (board st))]"
    using first_event_fold [OF assms] by blast
  have ne: "xs \<noteq> []"
    using h by auto
  have "trace (snd (research_round e task m r st))
      = trace st @ (xs @ drop (length (trace st @ xs)) (trace (snd (research_round e task m r st))))"
    by (simp add: research_round_def moderator_turn_fields x)
  moreover have "take 1 (xs @ drop (length (trace st @ xs)) (trace (snd (research_round e task m r st))))
      = [AgentCall (agent_role (snd (hd (agents st)))) task (board_text (board st))]"
    using h ne by (cases xs) simp_all
  ultimately show ?thesis
    by blast
qed

lemma first_event_rounds:
  assumes "agents st \<noteq> []"
  shows "take 1 (run_events st (snd (research_rounds e task m (r # rs) st)))
           = [AgentCall (agent_role (snd (hd (agents st)))) task (board_text (board st))]"
proof -
  let ?st = "snd (research_round e task m r st)"
  obtain xs where x: "trace ?st = trace st @ xs"
    and h: "take 1 xs = [AgentCall (agent_role (snd (hd (agents st)))) task (board_text (board st))]"
    using first_event_round [OF assms] by blast
  have ne: "xs \<noteq> []"
    using h by auto
  obtain ys where y: "trace (snd (research_rounds e task m (r # rs) st)) = trace ?st @ ys"
  proof (cases "is_conclusion (fst (research_round e task m r st))")
    case True
    then have "trace (snd (research_rounds e task m (r # rs) st)) = trace ?st @ []"
      by (simp add: case_prod_beta)
    then show ?thesis by (rule that)
  next
    case False
    obtain ys where "advances ?st (snd (research_rounds e task m rs ?st)) ys"
      using advances_research_rounds by blast
    then have "trace (snd (research_rounds e task m (r # rs) st)) = trace ?st @ ys"
      using False by (simp add: case_prod_beta advances_def)
    then show ?thesis by (rule that)
  qed
  show ?thesis
    using take1_run_events [OF x y ne] h by simp
qed

lemma research_agents_first:
  "research_agents e hf = Inr (ags, m) \<Longrightarrow> ags \<noteq> [] \<and> agent_role (snd (hd ags)) = ''ResearchBot''"
  by (auto simp: research_agents_def bind_error_def HuggingFaceAgent_init_def Let_def
           split: if_splits sum.splits)

lemma run_research_returns:
  "research_agents e (use_hf st) = Inr (ags, m) \<Longrightarrow>
     \<exists>res st'. run_research_collaboration e task st = Inr (res, st')"
  by (simp add: run_research_collaboration_def bind_error_def case_prod_beta Let_def)

lemma first_event_run:
  assumes made: "research_agents e (use_hf st) = Inr (ags, m)" and n: "1 \<le> rounds st"
  shows "take 1 (run_events st (snd (projr (run_research_collaboration e task st))))
           = [AgentCall ''ResearchBot'' task (board_text (board st))]"
proof -
  define st1 where "st1 = st\<lparr>agents := ags, moderator := Some m\<rparr>"
  have up: "[1..rounds st] = 1 # [2..rounds st]"
    using n by (simp add: upto_rec1)
  have a: "agents st1 \<noteq> []" and r: "agent_role (snd (hd (agents st1))) = ''ResearchBot''"
    using research_agents_first [OF made] by (simp_all add: st1_def)
  have "snd (projr (run_research_collaboration e task st))
      = snd (research_rounds e task m (1 # [2..rounds st]) st1)"
    by (simp add: run_research_collaboration_def made bind_error_def st1_def up case_prod_beta
          Let_def del: research_rounds.simps)
  moreover have "run_events st st' = run_events st1 st'" for st'
    by (simp add: run_events_def st1_def)
  ultimately show ?thesis
    using first_event_rounds [OF a, of e task m 1 "[2..rounds st]"] r
    by (simp add: st1_def)
qed

text \<open>
  Claim C9 (amended). A new \<open>Orchestrator\<close> has an empty board. In an invocation of the
  research workflow that starts with an empty board and has at least one round, the
  first event is the call of ResearchBot, and the board text it is given is \<open>(empty)\<close>.
  (In general that call is given the rendering of the board as the invocation finds it,
  lemma \<open>first_event_run\<close>.)
\<close>

theorem first_agent_sees_empty_board:
  "board (Orchestrator_init s n hf) = []
   \<and> (board st = [] \<and> 1 \<le> rounds st \<and> run_research_collaboration e task st = Inr (res, st')
        \<longrightarrow> take 1 (run_events st st') = [AgentCall ''ResearchBot'' task ''(empty)''])"
proof -
  have "take 1 (run_events st st') = [AgentCall ''ResearchBot'' task ''(empty)'']"
    if b: "board st = []" and n: "1 \<le> rounds st"
      and run: "run_research_collaboration e task st = Inr (res, st')"
  proof -
    obtain ags m where made: "research_agents e (use_hf st) = Inr (ags, m)"
      using run by (cases "research_agents e (use_hf st)")
        (auto simp: run_research_collaboration_def bind_error_def)
    show ?thesis
      using first_event_run [OF made n, of task] by (simp add: run b board_text_def)
  qed
  then show ?thesis
    by (simp add: Orchestrator_init_def)
qed

theorem first_agent_sees_empty_board_witness:
  "board (Orchestrator_init (HistoryStore_init ''collab_history_test.db'') 1 False) = []
   \<and> 1 \<le> rounds (Orchestrator_init (HistoryStore_init ''collab_history_test.db'') 1 False)
   \<and> take 1 (trace (snd (projr (run_research_collaboration (fixed_env False [])
        ''What is the capital of France?''
        (Orchestrator_init (HistoryStore_init ''collab_history_test.db'') 1 False)))))
     = [AgentCall ''ResearchBot'' ''What is the capital of France?'' ''(empty)'']"
proof -
  let ?st = "Orchestrator_init (HistoryStore_init ''collab_history_test.db'') 1 False"
  let ?t = "''What is the capital of France?''"
  have b: "board ?st = []" and n: "1 \<le> rounds ?st" and t: "trace ?st = []"
    by (simp_all add: Orchestrator_init_def)
  have "research_agents (fixed_env False []) (use_hf ?st)
     = Inr ([(''ResearchBot'', FakeLLM ''ResearchBot''), (''CreativeBot'', FakeLLM ''CreativeBot''),
             (''AnalysisBot'', FakeLLM ''AnalysisBot'')], FakeLLM ''Moderator'')"
    by (simp add: Orchestrator_init_def research_agents_fake)
  then obtain res st' where run: "run_research_collaboration (fixed_env False []) ?t ?st = Inr (res, st')"
    using run_research_returns by blast
  have "take 1 (run_events ?st st') = [AgentCall ''ResearchBot'' ?t ''(empty)'']"
    using first_agent_sees_empty_board [of _ _ _ ?st "fixed_env False []" ?t res st'] b n run
    by blast
  then show ?thesis
    using b n by (simp add: run run_events_def t)
qed

lemma board_text_nonempty:
  assumes "b \<noteq> []"
  shows "board_text b \<noteq> ''(empty)''"
proof -
  obtain k ks where ks: "sort (map fst b) = k # ks"
    using assms by (cases "sort (map fst b)") (auto dest: arg_cong [where f = length])
  have "\<exists>rest. str_join ''\<newline>\<newline>'' (map (board_block b) (k # ks)) = CHR ''-'' # rest"
    by (cases ks) (simp_all add: board_block_def)
  then show ?thesis
    using assms by (auto simp: board_text_def ks)
qed

lemma board_after_nonempty: "b \<noteq> [] \<Longrightarrow> board_after evs b \<noteq> []"
  by (induction evs b rule: board_after.induct) simp_all

lemma research_rounds_board:
  "board (snd (research_rounds e task m (r # rs) st)) \<noteq> []"
proof -
  let ?st = "snd (research_round e task m r st)"
  have b: "board ?st \<noteq> []"
    by (simp add: research_round_def moderator_turn_fields)
  obtain ys where "advances ?st (snd (research_rounds e task m rs ?st)) ys"
    using advances_research_rounds by blast
  then have "board (snd (research_rounds e task m rs ?st)) \<noteq> []"
    using b by (simp add: advances_def board_after_nonempty)
  then show ?thesis
    using b by (simp add: case_prod_beta)
qed

lemma run_research_frame:
  assumes made: "research_agents e (use_hf st) = Inr (ags, m)"
  shows "use_hf (snd (projr (run_research_collaboration e task st))) = use_hf st"
    and "rounds (snd (projr (run_research_collaboration e task st))) = rounds st"
    and "1 \<le> rounds st \<Longrightarrow> board (snd (projr (run_research_collaboration e task st))) \<noteq> []"
proof -
  define st1 where "st1 = st\<lparr>agents := ags, moderator := Some m\<rparr>"
  have run: "snd (projr (run_research_collaboration e task st))
      = snd (research_rounds e task m [1..rounds st] st1)"
    by (simp add: run_research_collaboration_def made bind_error_def st1_def case_prod_beta Let_def)
  obtain evs where a: "advances st1 (snd (research_rounds e task m [1..rounds st] st1)) evs"
    using advances_research_rounds by blast
  show "use_hf (snd (projr (run_research_collaboration e task st))) = use_hf st"
    using a by (simp add: run advances_def st1_def)
  show "rounds (snd (projr (run_research_collaboration e task st))) = rounds st"
    using a by (simp add: run advances_def st1_def)
  show "board (snd (projr (run_research_collaboration e task st))) \<noteq> []" if "1 \<le> rounds st"
  proof -
    have "[1..rounds st] = 1 # [2..rounds st]"
      using that by (simp add: upto_rec1)
    then show ?thesis
      using research_rounds_board [of e task m 1 "[2..rounds st]" st1] by (simp add: run)
  qed
qed

text \<open>
  The board is set to empty by the constructor only: a second invocation on the same
  \<open>Orchestrator\<close> starts from the board the first one left, and its first agent is not
  given \<open>(empty)\<close>.
\<close>

theorem second_invocation_counterexample:
  "take 1 (run_events
        (snd (projr (run_research_collaboration (fixed_env False [])
           ''What is the capital of France?''
           (Orchestrator_init (HistoryStore_init ''collab_history_test.db'') 1 False))))
        (snd (projr (run_research_collaboration (fixed_env False [])
           ''What is the capital of France?''
           (snd (projr (run_research_collaboration (fixed_env False [])
              ''What is the capital of France?''
              (Orchestrator_init (HistoryStore_init ''collab_history_test.db'') 1 False))))))))
     \<noteq> [AgentCall ''ResearchBot'' ''What is the capital of France?'' ''(empty)'']"
proof -
  let ?e = "fixed_env False []"
  let ?t = "''What is the capital of France?''"
  let ?st0 = "Orchestrator_init (HistoryStore_init ''collab_history_test.db'') 1 False"
  let ?st1 = "snd (projr (run_research_collaboration ?e ?t ?st0))"
  let ?fake = "Inr ([(''ResearchBot'', FakeLLM ''ResearchBot''), (''CreativeBot'', FakeLLM ''CreativeBot''),
             (''AnalysisBot'', FakeLLM ''AnalysisBot'')], FakeLLM ''Moderator'')"
  have h0: "\<not> use_hf ?st0" and r0: "rounds ?st0 = 1"
    by (simp_all add: Orchestrator_init_def)
  have made0: "research_agents ?e (use_hf ?st0) = ?fake"
    using h0 by (simp only: research_agents_fake)
  have h1: "\<not> use_hf ?st1" and r1: "rounds ?st1 = 1" and b1: "board ?st1 \<noteq> []"
    using run_research_frame [OF made0, of ?t] h0 r0 by simp_all
  have made1: "research_agents ?e (use_hf ?st1) = ?fake"
    using h1 by (simp only: research_agents_fake)
  have "take 1 (run_events ?st1 (snd (projr (run_research_collaboration ?e ?t ?st1))))
      = [AgentCall ''ResearchBot'' ?t (board_text (board ?st1))]"
    using first_event_run [OF made1, of ?t] r1 by simp
  then show ?thesis
    using board_text_nonempty [OF b1] by simp
qed

text \<open>
  The loop ends in the first round whose moderator answer passes the test, with the
  report made of that answer.
\<close>

lemma research_rounds_first_conclusion:
  "is_conclusion (fst (research_round e task m r st)) \<Longrightarrow>
     research_rounds e task m (r # rs) st
       = (conclusion_report (fst (research_round e task m r st)),
          snd (research_round e task m r st))"
  by (simp add: case_prod_beta prod_eq_iff)

lemma research_rounds_conclusion_at:
  assumes "\<forall>mo \<in> set (fst (all_rounds e task m rs st)). \<not> is_conclusion mo"
    and "is_conclusion (fst (research_round e task m r (snd (all_rounds e task m rs st))))"
  shows "research_rounds e task m (rs @ r # rs') st
       = (conclusion_report (fst (research_round e task m r (snd (all_rounds e task m rs st)))),
          snd (research_round e task m r (snd (all_rounds e task m rs st))))"
  using assms
proof (induction rs arbitrary: st)
  case Nil
  then show ?case
    by (simp add: research_rounds_first_conclusion del: research_rounds.simps)
next
  case (Cons a rs)
  then show ?case
    by (simp add: case_prod_beta)
qed

lemma HuggingFace_moderator_reply:
  "generate (fixed_env ok ''Output: conclusion: done'') n
     (HuggingFaceAgent ''Moderator'' ''text-generation'' ''microsoft/phi-2'') task bt
   = ''conclusion: done''"
proof -
  have a: "\<not> sublist ''Summarizer'' ''Moderator''" "\<not> sublist ''Analysis'' ''Moderator''"
    by code_simp+
  have b: "str_find ''Output: conclusion: done'' ''Output:'' = 0"
    by code_simp
  have c: "str_strip '' conclusion: done'' = ''conclusion: done''"
    by code_simp
  have d: "pipe_run (fixed_env ok ''Output: conclusion: done'') n ''text-generation''
      ''microsoft/phi-2'' p = Inr ''Output: conclusion: done''" for p
    by (simp add: fixed_env_def)
  show ?thesis
    by (simp only: generate.simps HuggingFaceAgent_generate_def a b d Let_def if_False
          sum.case simp_thms) (simp add: c)
qed

text \<open>
  Claim C1, at an input where the code departs from it. The claim: when the moderator's
  answer, trimmed and case-normalized, starts with \<open>CONCLUSION:\<close>, the workflow ends in that
  round and the final report is the answer with that prefix stripped and trimmed. The
  loop does end there (lemma \<open>research_rounds_conclusion_at\<close>). But the test ignores case
  and the removal does not: a moderator that answers \<open>conclusion: done\<close> ends the workflow
  in round 1 with the report \<open>conclusion: done\<close>, prefix kept, where the claim gives
  \<open>done\<close>. And the removal takes every occurrence of \<open>CONCLUSION:\<close>, not the prefix alone.
\<close>

theorem conclusion_prefix_kept:
  "is_conclusion ''conclusion: done''
   \<and> generate (fixed_env True ''Output: conclusion: done'') n
        (HuggingFaceAgent ''Moderator'' ''text-generation'' ''microsoft/phi-2'') task bt
       = ''conclusion: done''
   \<and> result_summary (fst (projr (run_research_collaboration
        (fixed_env True ''Output: conclusion: done'') ''RCB won their first IPL title''
        (Orchestrator_init (HistoryStore_init ''research_history.db'') 3 True))))
       = ''conclusion: done''
   \<and> is_conclusion ''CONCLUSION: see the CONCLUSION: line''
   \<and> conclusion_report ''CONCLUSION: see the CONCLUSION: line'' = ''see the  line''"
proof -
  let ?e = "fixed_env True ''Output: conclusion: done''"
  let ?t = "''RCB won their first IPL title''"
  let ?st = "Orchestrator_init (HistoryStore_init ''research_history.db'') 3 True"
  let ?m = "HuggingFaceAgent ''Moderator'' ''text-generation'' ''microsoft/phi-2''"
  have c: "is_conclusion ''conclusion: done''"
    by code_simp
  have r: "conclusion_report ''conclusion: done'' = ''conclusion: done''"
    by code_simp
  obtain ags where made: "research_agents ?e True = Inr (ags, ?m)"
    by (simp add: research_agents_def bind_error_def HuggingFaceAgent_init_def fixed_env_def
          sublist_Cons_right)
  define st1 where "st1 = ?st\<lparr>agents := ags, moderator := Some ?m\<rparr>"
  have mo: "fst (research_round ?e ?t ?m 1 st1) = ''conclusion: done''"
    by (simp only: research_round_def moderator_turn_fields HuggingFace_moderator_reply)
  have "research_rounds ?e ?t ?m (1 # [2..3]) st1
      = (''conclusion: done'', snd (research_round ?e ?t ?m 1 st1))"
    using research_rounds_first_conclusion [of ?e ?t ?m 1 st1 "[2..3]"] c
    by (simp only: mo r simp_thms)
  moreover have "[1..3::int] = 1 # [2..3]"
    by (simp add: upto_rec1)
  ultimately have "result_summary (fst (projr (run_research_collaboration ?e ?t ?st)))
      = ''conclusion: done''"
    using made
    by (simp add: run_research_collaboration_def bind_error_def Orchestrator_init_def st1_def
          del: research_rounds.simps)
  moreover have "is_conclusion ''CONCLUSION: see the CONCLUSION: line''"
    and "conclusion_report ''CONCLUSION: see the CONCLUSION: line'' = ''see the  line''"
    by code_simp+
  ultimately show ?thesis
    using c HuggingFace_moderator_reply [of True n task bt] by simp
qed

section \<open>The schedule workflow\<close>


lemma put_keys_append [simp]: "put_keys (xs @ ys) = put_keys xs @ put_keys ys"
  by (induction xs rule: put_keys.induct) simp_all

lemma mset_subset_add_mset: "A \<subseteq># B \<Longrightarrow> A \<subseteq># add_mset c B"
  by (erule subset_mset.order_trans) simp

lemma advances_turn:
  "advances st (board_put k c (store_log e c (snd (call_generate e a task bt st))))
     [AgentCall (agent_role a) task bt, StoreLog c, BoardPut k c]"
  by (simp add: advances_def store_ahead_turn)

lemma advances_store_log: "advances st (store_log e c st) [StoreLog c]"
  by (simp add: advances_def store_ahead_def mset_subset_add_mset)

lemma schedule_decision_unchanged:
  "board (snd (schedule_decision find_slot book summary a st)) = board st"
  "store (snd (schedule_decision find_slot book summary a st)) = store st"
  "rounds (snd (schedule_decision find_slot book summary a st)) = rounds st"
  "agents (snd (schedule_decision find_slot book summary a st)) = agents st"
  "use_hf (snd (schedule_decision find_slot book summary a st)) = use_hf st"
  by (simp_all add: schedule_decision_def Let_def)

text \<open>The calls of the tools and the report that the decision makes at moment \<open>n\<close>.\<close>

lemma schedule_decision_outcome:
  "trace (snd (schedule_decision find_slot book summary a st))
     = trace st @
       (if has_scheduling_keyword (str_lower a) then
          [FindSlot 45,
           BookEvent (find_slot (length (trace st)) 45) (meeting_title_for (str_lower a))
             (''Follow-up based on meeting summary: '' @ summary)]
        else [])"
  "fst (schedule_decision find_slot book summary a st)
     = (if has_scheduling_keyword (str_lower a) then
          if book (length (trace st) + 1) (find_slot (length (trace st)) 45)
               (meeting_title_for (str_lower a))
               (''Follow-up based on meeting summary: '' @ summary)
          then success_report (meeting_title_for (str_lower a)) (find_slot (length (trace st)) 45)
          else ''FAILURE: Could not schedule the meeting.''
        else ''CONCLUSION: No specific scheduling action item was identified.'')"
  by (simp_all add: schedule_decision_def Let_def)

lemma advances_schedule_decision:
  "advances st (snd (schedule_decision find_slot book summary a st))
     (if has_scheduling_keyword (str_lower a) then
        [FindSlot 45,
         BookEvent (find_slot (length (trace st)) 45) (meeting_title_for (str_lower a))
           (''Follow-up based on meeting summary: '' @ summary)]
      else [])"
  by (simp add: advances_def schedule_decision_unchanged schedule_decision_outcome
        store_ahead_def)

lemma schedule_report_store_log: "schedule_report (store_log e c st) = answer c"
  by (simp add: schedule_report_def HistoryStore_log_def Let_def)

lemma schedule_steps_shape:
  fixes find_slot book e transcript summarizer extractor st
  defines "S \<equiv> schedule_steps find_slot book e transcript summarizer extractor st"
  defines "task \<equiv> ''Analyze the following transcript, summarize it, and extract the key action item. Transcript:\<newline>'' @ transcript"
  shows "\<exists>summary a.
     advances st S
       ([AgentCall (agent_role summarizer) task transcript,
         StoreLog \<lparr>role = ''TranscriptSummarizer'', answer = summary, confidence = 0.8,
                   rationale = ''generated'', iteration = 1\<rparr>,
         BoardPut ''TranscriptSummarizer-r1''
           \<lparr>role = ''TranscriptSummarizer'', answer = summary, confidence = 0.8,
            rationale = ''generated'', iteration = 1\<rparr>,
         AgentCall (agent_role extractor) action_item_task
           (board_text (AList.update ''TranscriptSummarizer-r1''
              \<lparr>role = ''TranscriptSummarizer'', answer = summary, confidence = 0.8,
               rationale = ''generated'', iteration = 1\<rparr> (board st))),
         StoreLog \<lparr>role = ''ActionItemExtractor'', answer = a, confidence = 0.8,
                   rationale = ''generated'', iteration = 1\<rparr>,
         BoardPut ''ActionItemExtractor-r1''
           \<lparr>role = ''ActionItemExtractor'', answer = a, confidence = 0.8,
            rationale = ''generated'', iteration = 1\<rparr>]
        @ (if has_scheduling_keyword (str_lower a) then
             [FindSlot 45,
              BookEvent (find_slot (length (trace st) + 6) 45) (meeting_title_for (str_lower a))
                (''Follow-up based on meeting summary: '' @ summary)]
           else [])
        @ [StoreLog \<lparr>role = ''Moderator'', answer = schedule_report S, confidence = 0.9,
                     rationale = ''conclusion'', iteration = 1\<rparr>])
     \<and> schedule_report S
         = (if has_scheduling_keyword (str_lower a) then
              if book (length (trace st) + 7) (find_slot (length (trace st) + 6) 45)
                   (meeting_title_for (str_lower a))
                   (''Follow-up based on meeting summary: '' @ summary)
              then success_report (meeting_title_for (str_lower a))
                     (find_slot (length (trace st) + 6) 45)
              else ''FAILURE: Could not schedule the meeting.''
            else ''CONCLUSION: No specific scheduling action item was identified.'')
     \<and> summary = generate e (length (trace st)) summarizer task transcript
     \<and> a = generate e (length (trace st) + 3) extractor action_item_task
           (board_text (AList.update ''TranscriptSummarizer-r1''
              \<lparr>role = ''TranscriptSummarizer'', answer = summary, confidence = 0.8,
               rationale = ''generated'', iteration = 1\<rparr> (board st)))"
proof -
  define summary where "summary = fst (call_generate e summarizer task transcript st)"
  define s1 where "s1 = snd (call_generate e summarizer task transcript st)"
  define c1 where "c1 = \<lparr>role = ''TranscriptSummarizer'', answer = summary,
              confidence = 0.8, rationale = ''generated'', iteration = 1\<rparr>"
  define st2 where "st2 = board_put ''TranscriptSummarizer-r1'' c1 (store_log e c1 s1)"
  define bt where "bt = board_text (board st2)"
  define a where "a = fst (call_generate e extractor action_item_task bt st2)"
  define s3 where "s3 = snd (call_generate e extractor action_item_task bt st2)"
  define c2 where "c2 = \<lparr>role = ''ActionItemExtractor'', answer = a,
              confidence = 0.8, rationale = ''generated'', iteration = 1\<rparr>"
  define st4 where "st4 = board_put ''ActionItemExtractor-r1'' c2 (store_log e c2 s3)"
  define d where "d = schedule_decision find_slot book summary a st4"
  define c3 where "c3 = \<lparr>role = ''Moderator'', answer = fst d, confidence = 0.9,
                  rationale = ''conclusion'', iteration = 1\<rparr>"
  define tools where "tools = (if has_scheduling_keyword (str_lower a) then
             [FindSlot 45,
              BookEvent (find_slot (length (trace st) + 6) 45) (meeting_title_for (str_lower a))
                (''Follow-up based on meeting summary: '' @ summary)]
           else [])"
  have S: "S = store_log e c3 (snd d)"
    unfolding S_def schedule_steps_def Let_def case_prod_beta task_def c3_def d_def st4_def
      c2_def s3_def a_def bt_def st2_def c1_def s1_def summary_def
    by (rule refl)
  have a1: "advances st st2 [AgentCall (agent_role summarizer) task transcript, StoreLog c1,
        BoardPut ''TranscriptSummarizer-r1'' c1]"
    unfolding st2_def s1_def by (rule advances_turn)
  have b2: "board st2 = AList.update ''TranscriptSummarizer-r1'' c1 (board st)"
    and t2: "length (trace st2) = length (trace st) + 3"
    by (simp_all add: st2_def s1_def)
  have a2: "advances st2 st4 [AgentCall (agent_role extractor) action_item_task bt, StoreLog c2,
        BoardPut ''ActionItemExtractor-r1'' c2]"
    unfolding st4_def s3_def by (rule advances_turn)
  have t4: "length (trace st4) = length (trace st) + 6"
    by (simp add: st4_def s3_def t2)
  have a3: "advances st4 (snd d) tools"
    unfolding d_def tools_def t4 [symmetric] by (rule advances_schedule_decision)
  have a4: "advances (snd d) S [StoreLog c3]"
    unfolding S by (rule advances_store_log)
  have rep: "schedule_report S = fst d"
    by (simp add: S schedule_report_store_log c3_def)
  have all: "advances st S
      (([AgentCall (agent_role summarizer) task transcript, StoreLog c1,
         BoardPut ''TranscriptSummarizer-r1'' c1]
        @ [AgentCall (agent_role extractor) action_item_task bt, StoreLog c2,
           BoardPut ''ActionItemExtractor-r1'' c2])
       @ tools @ [StoreLog c3])"
    by (intro advances_trans [OF advances_trans [OF a1 a2] advances_trans [OF a3 a4]])
  have all': "advances st S
      ([AgentCall (agent_role summarizer) task transcript, StoreLog c1,
        BoardPut ''TranscriptSummarizer-r1'' c1,
        AgentCall (agent_role extractor) action_item_task
          (board_text (AList.update ''TranscriptSummarizer-r1'' c1 (board st))),
        StoreLog c2, BoardPut ''ActionItemExtractor-r1'' c2]
       @ tools @
       [StoreLog \<lparr>role = ''Moderator'', answer = schedule_report S, confidence = 0.9,
                  rationale = ''conclusion'', iteration = 1\<rparr>])"
    using all by (simp only: append_Cons append_Nil bt_def b2 c3_def rep)
  have dec: "schedule_report S
         = (if has_scheduling_keyword (str_lower a) then
              if book (length (trace st) + 7) (find_slot (length (trace st) + 6) 45)
                   (meeting_title_for (str_lower a))
                   (''Follow-up based on meeting summary: '' @ summary)
              then success_report (meeting_title_for (str_lower a))
                     (find_slot (length (trace st) + 6) 45)
              else ''FAILURE: Could not schedule the meeting.''
            else ''CONCLUSION: No specific scheduling action item was identified.'')"
    unfolding rep d_def schedule_decision_outcome t4 by (simp only: add.assoc) simp
  have sm: "summary = generate e (length (trace st)) summarizer task transcript"
    by (simp only: summary_def call_generate_fields)
  have ai: "a = generate e (length (trace st) + 3) extractor action_item_task
           (board_text (AList.update ''TranscriptSummarizer-r1'' c1 (board st)))"
    by (simp only: a_def call_generate_fields bt_def b2 t2)
  show ?thesis
    using all' dec sm ai unfolding c1_def c2_def tools_def by blast
qed

lemma HuggingFaceAgent_init_roles:
  "HuggingFaceAgent_init e ''TranscriptSummarizer'' model
     = (if pipeline_ok e ''summarization'' model
        then Inr (HuggingFaceAgent ''TranscriptSummarizer'' ''summarization'' model)
        else Inl (PipelineError ''summarization'' model))"
  "HuggingFaceAgent_init e ''ActionItemExtractor'' model
     = (if pipeline_ok e ''text-generation'' model
        then Inr (HuggingFaceAgent ''ActionItemExtractor'' ''text-generation'' model)
        else Inl (PipelineError ''text-generation'' model))"
  "HuggingFaceAgent_init e ''Moderator'' model
     = (if pipeline_ok e ''text-generation'' model
        then Inr (HuggingFaceAgent ''Moderator'' ''text-generation'' model)
        else Inl (PipelineError ''text-generation'' model))"
proof -
  have a: "sublist ''Summarizer'' ''TranscriptSummarizer''"
    "\<not> sublist ''Summarizer'' ''ActionItemExtractor''" "\<not> sublist ''Analysis'' ''ActionItemExtractor''"
    "\<not> sublist ''Summarizer'' ''Moderator''" "\<not> sublist ''Analysis'' ''Moderator''"
    by code_simp+
  show "HuggingFaceAgent_init e ''TranscriptSummarizer'' model
     = (if pipeline_ok e ''summarization'' model
        then Inr (HuggingFaceAgent ''TranscriptSummarizer'' ''summarization'' model)
        else Inl (PipelineError ''summarization'' model))"
    by (simp only: HuggingFaceAgent_init_def a Let_def simp_thms if_True)
  show "HuggingFaceAgent_init e ''ActionItemExtractor'' model
     = (if pipeline_ok e ''text-generation'' model
        then Inr (HuggingFaceAgent ''ActionItemExtractor'' ''text-generation'' model)
        else Inl (PipelineError ''text-generation'' model))"
    by (simp only: HuggingFaceAgent_init_def a Let_def simp_thms if_False)
  show "HuggingFaceAgent_init e ''Moderator'' model
     = (if pipeline_ok e ''text-generation'' model
        then Inr (HuggingFaceAgent ''Moderator'' ''text-generation'' model)
        else Inl (PipelineError ''text-generation'' model))"
    by (simp only: HuggingFaceAgent_init_def a Let_def simp_thms if_False)
qed

lemma schedule_run_cases:
  "run_schedule_optimization_with find_slot book e transcript st
     = (if pipeline_ok e ''summarization'' ''facebook/bart-large-cnn''
          \<and> pipeline_ok e ''text-generation'' ''microsoft/phi-2''
        then Inr (schedule_steps find_slot book e transcript
           (HuggingFaceAgent ''TranscriptSummarizer'' ''summarization'' ''facebook/bart-large-cnn'')
           (HuggingFaceAgent ''ActionItemExtractor'' ''text-generation'' ''microsoft/phi-2'')
           (st\<lparr>agents :=
                 [(''TranscriptSummarizer'',
                   HuggingFaceAgent ''TranscriptSummarizer'' ''summarization'' ''facebook/bart-large-cnn''),
                  (''ActionItemExtractor'',
                   HuggingFaceAgent ''ActionItemExtractor'' ''text-generation'' ''microsoft/phi-2'')],
               moderator := Some (HuggingFaceAgent ''Moderator'' ''text-generation'' ''microsoft/phi-2'')\<rparr>))
        else if pipeline_ok e ''summarization'' ''facebook/bart-large-cnn''
        then Inl (PipelineError ''text-generation'' ''microsoft/phi-2'')
        else Inl (PipelineError ''summarization'' ''facebook/bart-large-cnn''))"
  unfolding run_schedule_optimization_with_def HuggingFaceAgent_init_roles bind_error_def
  by (cases "pipeline_ok e ''summarization'' ''facebook/bart-large-cnn''";
      cases "pipeline_ok e ''text-generation'' ''microsoft/phi-2''")
     (simp_all only: if_True if_False sum.case simp_thms)

lemma schedule_run_shape:
  assumes run: "run_schedule_optimization_with find_slot book e transcript st = Inr st'"
  shows "\<exists>summary a.
     run_events st st' =
       [AgentCall ''TranscriptSummarizer''
          (''Analyze the following transcript, summarize it, and extract the key action item. Transcript:\<newline>'' @ transcript)
          transcript,
        StoreLog \<lparr>role = ''TranscriptSummarizer'', answer = summary, confidence = 0.8,
                  rationale = ''generated'', iteration = 1\<rparr>,
        BoardPut ''TranscriptSummarizer-r1''
          \<lparr>role = ''TranscriptSummarizer'', answer = summary, confidence = 0.8,
           rationale = ''generated'', iteration = 1\<rparr>,
        AgentCall ''ActionItemExtractor'' action_item_task
          (board_text (AList.update ''TranscriptSummarizer-r1''
             \<lparr>role = ''TranscriptSummarizer'', answer = summary, confidence = 0.8,
              rationale = ''generated'', iteration = 1\<rparr> (board st))),
        StoreLog \<lparr>role = ''ActionItemExtractor'', answer = a, confidence = 0.8,
                  rationale = ''generated'', iteration = 1\<rparr>,
        BoardPut ''ActionItemExtractor-r1''
          \<lparr>role = ''ActionItemExtractor'', answer = a, confidence = 0.8,
           rationale = ''generated'', iteration = 1\<rparr>]
       @ (if has_scheduling_keyword (str_lower a) then
            [FindSlot 45,
             BookEvent (find_slot (length (trace st) + 6) 45) (meeting_title_for (str_lower a))
               (''Follow-up based on meeting summary: '' @ summary)]
          else [])
       @ [StoreLog \<lparr>role = ''Moderator'', answer = schedule_report st', confidence = 0.9,
                    rationale = ''conclusion'', iteration = 1\<rparr>]
     \<and> schedule_report st'
         = (if has_scheduling_keyword (str_lower a) then
              if book (length (trace st) + 7) (find_slot (length (trace st) + 6) 45)
                   (meeting_title_for (str_lower a))
                   (''Follow-up based on meeting summary: '' @ summary)
              then success_report (meeting_title_for (str_lower a))
                     (find_slot (length (trace st) + 6) 45)
              else ''FAILURE: Could not schedule the meeting.''
            else ''CONCLUSION: No specific scheduling action item was identified.'')
     \<and> summary = generate e (length (trace st))
           (HuggingFaceAgent ''TranscriptSummarizer'' ''summarization'' ''facebook/bart-large-cnn'')
           (''Analyze the following transcript, summarize it, and extract the key action item. Transcript:\<newline>'' @ transcript)
           transcript
     \<and> a = generate e (length (trace st) + 3)
           (HuggingFaceAgent ''ActionItemExtractor'' ''text-generation'' ''microsoft/phi-2'')
           action_item_task
           (board_text (AList.update ''TranscriptSummarizer-r1''
              \<lparr>role = ''TranscriptSummarizer'', answer = summary, confidence = 0.8,
               rationale = ''generated'', iteration = 1\<rparr> (board st)))
     \<and> trace st' = trace st @ run_events st st'
     \<and> map contrib (rows (store st')) = map contrib (rows (store st)) @ logged (run_events st st')
     \<and> board st' = board_after (run_events st st') (board st)
     \<and> (\<forall>base. mset (map snd (board st)) \<subseteq># mset base
           \<longrightarrow> store_ahead base (board st) (run_events st st'))"
proof -
  let ?st1 = "st\<lparr>agents :=
                 [(''TranscriptSummarizer'',
                   HuggingFaceAgent ''TranscriptSummarizer'' ''summarization'' ''facebook/bart-large-cnn''),
                  (''ActionItemExtractor'',
                   HuggingFaceAgent ''ActionItemExtractor'' ''text-generation'' ''microsoft/phi-2'')],
               moderator := Some (HuggingFaceAgent ''Moderator'' ''text-generation'' ''microsoft/phi-2'')\<rparr>"
  have st': "st' = schedule_steps find_slot book e transcript
           (HuggingFaceAgent ''TranscriptSummarizer'' ''summarization'' ''facebook/bart-large-cnn'')
           (HuggingFaceAgent ''ActionItemExtractor'' ''text-generation'' ''microsoft/phi-2'') ?st1"
    using run unfolding schedule_run_cases by (simp split: if_splits)
  have f: "trace ?st1 = trace st" "board ?st1 = board st" "store ?st1 = store st"
    by simp_all
  note sh = schedule_steps_shape [of ?st1 find_slot book e transcript
      "HuggingFaceAgent ''TranscriptSummarizer'' ''summarization'' ''facebook/bart-large-cnn''"
      "HuggingFaceAgent ''ActionItemExtractor'' ''text-generation'' ''microsoft/phi-2''",
      folded st', unfolded f agent_role.simps]
  then obtain summary a evs where
    adv: "advances ?st1 st' evs"
    and evs: "evs =
       [AgentCall ''TranscriptSummarizer''
          (''Analyze the following transcript, summarize it, and extract the key action item. Transcript:\<newline>'' @ transcript)
          transcript,
        StoreLog \<lparr>role = ''TranscriptSummarizer'', answer = summary, confidence = 0.8,
                  rationale = ''generated'', iteration = 1\<rparr>,
        BoardPut ''TranscriptSummarizer-r1''
          \<lparr>role = ''TranscriptSummarizer'', answer = summary, confidence = 0.8,
           rationale = ''generated'', iteration = 1\<rparr>,
        AgentCall ''ActionItemExtractor'' action_item_task
          (board_text (AList.update ''TranscriptSummarizer-r1''
             \<lparr>role = ''TranscriptSummarizer'', answer = summary, confidence = 0.8,
              rationale = ''generated'', iteration = 1\<rparr> (board st))),
        StoreLog \<lparr>role = ''ActionItemExtractor'', answer = a, confidence = 0.8,
                  rationale = ''generated'', iteration = 1\<rparr>,
        BoardPut ''ActionItemExtractor-r1''
          \<lparr>role = ''ActionItemExtractor'', answer = a, confidence = 0.8,
           rationale = ''generated'', iteration = 1\<rparr>]
       @ (if has_scheduling_keyword (str_lower a) then
            [FindSlot 45,
             BookEvent (find_slot (length (trace st) + 6) 45) (meeting_title_for (str_lower a))
               (''Follow-up based on meeting summary: '' @ summary)]
          else [])
       @ [StoreLog \<lparr>role = ''Moderator'', answer = schedule_report st', confidence = 0.9,
                    rationale = ''conclusion'', iteration = 1\<rparr>]"
    and rest: "schedule_report st'
         = (if has_scheduling_keyword (str_lower a) then
              if book (length (trace st) + 7) (find_slot (length (trace st) + 6) 45)
                   (meeting_title_for (str_lower a))
                   (''Follow-up based on meeting summary: '' @ summary)
              then success_report (meeting_title_for (str_lower a))
                     (find_slot (length (trace st) + 6) 45)
              else ''FAILURE: Could not schedule the meeting.''
            else ''CONCLUSION: No specific scheduling action item was identified.'')"
      "summary = generate e (length (trace st))
           (HuggingFaceAgent ''TranscriptSummarizer'' ''summarization'' ''facebook/bart-large-cnn'')
           (''Analyze the following transcript, summarize it, and extract the key action item. Transcript:\<newline>'' @ transcript)
           transcript"
      "a = generate e (length (trace st) + 3)
           (HuggingFaceAgent ''ActionItemExtractor'' ''text-generation'' ''microsoft/phi-2'')
           action_item_task
           (board_text (AList.update ''TranscriptSummarizer-r1''
              \<lparr>role = ''TranscriptSummarizer'', answer = summary, confidence = 0.8,
               rationale = ''generated'', iteration = 1\<rparr> (board st)))"
    by blast
  have tr: "trace st' = trace st @ evs"
    and rows: "map contrib (rows (store st')) = map contrib (rows (store st)) @ logged evs"
    and ba: "board st' = board_after evs (board st)"
    and ah: "\<forall>base. mset (map snd (board st)) \<subseteq># mset base \<longrightarrow> store_ahead base (board st) evs"
    using adv unfolding advances_def f by blast+
  have re: "run_events st st' = evs"
    using tr by (rule run_events_append)
  show ?thesis
    unfolding re using evs rest tr rows ba ah by blast
qed

lemma fixed_env_summarizer:
  "generate (fixed_env ok reply) n
     (HuggingFaceAgent ''TranscriptSummarizer'' ''summarization'' model) task bt = reply"
proof -
  have a: "sublist ''Summarizer'' ''TranscriptSummarizer''"
    by code_simp
  show ?thesis
    by (simp only: generate.simps HuggingFaceAgent_generate_def a simp_thms if_True Let_def)
      (simp add: fixed_env_def)
qed

lemma fixed_env_extractor:
  assumes "str_find reply ''Output:'' = - 1"
  shows "generate (fixed_env ok reply) n
     (HuggingFaceAgent ''ActionItemExtractor'' ''text-generation'' model) task bt = reply"
proof -
  have a: "\<not> sublist ''Summarizer'' ''ActionItemExtractor''"
    "\<not> sublist ''Analysis'' ''ActionItemExtractor''"
    by code_simp+
  have d: "pipe_run (fixed_env ok reply) n ''text-generation'' model p = Inr reply" for p
    by (simp add: fixed_env_def)
  show ?thesis
    by (simp only: generate.simps HuggingFaceAgent_generate_def a d assms Let_def if_False
          sum.case simp_thms)
qed

lemma logged_schedule_events:
  "logged ([AgentCall r1 t1 b1, StoreLog c1, BoardPut k1 c1, AgentCall r2 t2 b2, StoreLog c2,
            BoardPut k2 c2]
           @ (if w then [FindSlot d, BookEvent x y z] else []) @ [StoreLog c3]) = [c1, c2, c3]"
  "tool_calls ([AgentCall r1 t1 b1, StoreLog c1, BoardPut k1 c1, AgentCall r2 t2 b2, StoreLog c2,
            BoardPut k2 c2]
           @ (if w then [FindSlot d, BookEvent x y z] else []) @ [StoreLog c3])
     = (if w then [FindSlot d, BookEvent x y z] else [])"
  "put_keys ([AgentCall r1 t1 b1, StoreLog c1, BoardPut k1 c1, AgentCall r2 t2 b2, StoreLog c2,
            BoardPut k2 c2]
           @ (if w then [FindSlot d, BookEvent x y z] else []) @ [StoreLog c3]) = [k1, k2]"
  "last ([AgentCall r1 t1 b1, StoreLog c1, BoardPut k1 c1, AgentCall r2 t2 b2, StoreLog c2,
            BoardPut k2 c2]
           @ (if w then [FindSlot d, BookEvent x y z] else []) @ [StoreLog c3]) = StoreLog c3"
  by (simp_all add: tool_calls_def)

text \<open>
  Claim C5. In a run of the schedule workflow (for any slot finder and any booking
  collaborator), with the action items being the answer of the ActionItemExtractor:
  if their lower-casing contains none of \<open>schedule\<close>, \<open>finalize\<close>, \<open>review\<close>, no tool is
  called and the report is the fixed text
  \<open>CONCLUSION: No specific scheduling action item was identified.\<close>; if it contains one
  of them, the slot finder is called (for 45 minutes), then the booking collaborator,
  with the title chosen in the order \<open>budget\<close>, \<open>report\<close>, otherwise the general title, and
  the report is the success text with that title and the slot when the booking returns
  true and the failure text when it returns false.
\<close>

theorem schedule_branching:
  assumes run: "run_schedule_optimization_with find_slot book e transcript st = Inr st'"
  shows "\<exists>summary action_items.
     map (\<lambda>c. (role c, answer c)) (logged (run_events st st'))
       = [(''TranscriptSummarizer'', summary), (''ActionItemExtractor'', action_items),
          (''Moderator'', schedule_report st')]
     \<and> summary = generate e (length (trace st))
           (HuggingFaceAgent ''TranscriptSummarizer'' ''summarization'' ''facebook/bart-large-cnn'')
           (''Analyze the following transcript, summarize it, and extract the key action item. Transcript:\<newline>'' @ transcript)
           transcript
     \<and> action_items = generate e (length (trace st) + 3)
           (HuggingFaceAgent ''ActionItemExtractor'' ''text-generation'' ''microsoft/phi-2'')
           action_item_task
           (board_text (AList.update ''TranscriptSummarizer-r1''
              \<lparr>role = ''TranscriptSummarizer'', answer = summary, confidence = 0.8,
               rationale = ''generated'', iteration = 1\<rparr> (board st)))
     \<and> (\<not> (sublist ''schedule'' (str_lower action_items)
              \<or> sublist ''finalize'' (str_lower action_items)
              \<or> sublist ''review'' (str_lower action_items))
          \<longrightarrow> tool_calls (run_events st st') = []
              \<and> schedule_report st'
                  = ''CONCLUSION: No specific scheduling action item was identified.'')
     \<and> (sublist ''schedule'' (str_lower action_items)
           \<or> sublist ''finalize'' (str_lower action_items)
           \<or> sublist ''review'' (str_lower action_items)
          \<longrightarrow> tool_calls (run_events st st')
                = [FindSlot 45,
                   BookEvent (find_slot (length (trace st) + 6) 45)
                     (if sublist ''budget'' (str_lower action_items) then ''Finalize Q4 Budget''
                      else if sublist ''report'' (str_lower action_items)
                      then ''Review Detailed Report''
                      else ''General Follow-up Meeting'')
                     (''Follow-up based on meeting summary: '' @ summary)]
              \<and> schedule_report st'
                  = (if book (length (trace st) + 7) (find_slot (length (trace st) + 6) 45)
                         (if sublist ''budget'' (str_lower action_items) then ''Finalize Q4 Budget''
                          else if sublist ''report'' (str_lower action_items)
                          then ''Review Detailed Report''
                          else ''General Follow-up Meeting'')
                         (''Follow-up based on meeting summary: '' @ summary)
                     then ''SUCCESS: Follow-up meeting '' @ [CHR 0x27]
                          @ (if sublist ''budget'' (str_lower action_items)
                             then ''Finalize Q4 Budget''
                             else if sublist ''report'' (str_lower action_items)
                             then ''Review Detailed Report''
                             else ''General Follow-up Meeting'')
                          @ [CHR 0x27] @ '' scheduled for ''
                          @ find_slot (length (trace st) + 6) 45 @ ''.''
                     else ''FAILURE: Could not schedule the meeting.''))"
proof -
  obtain summary a where ev: "run_events st st' =
       [AgentCall ''TranscriptSummarizer''
          (''Analyze the following transcript, summarize it, and extract the key action item. Transcript:\<newline>'' @ transcript)
          transcript,
        StoreLog \<lparr>role = ''TranscriptSummarizer'', answer = summary, confidence = 0.8,
                  rationale = ''generated'', iteration = 1\<rparr>,
        BoardPut ''TranscriptSummarizer-r1''
          \<lparr>role = ''TranscriptSummarizer'', answer = summary, confidence = 0.8,
           rationale = ''generated'', iteration = 1\<rparr>,
        AgentCall ''ActionItemExtractor'' action_item_task
          (board_text (AList.update ''TranscriptSummarizer-r1''
             \<lparr>role = ''TranscriptSummarizer'', answer = summary, confidence = 0.8,
              rationale = ''generated'', iteration = 1\<rparr> (board st))),
        StoreLog \<lparr>role = ''ActionItemExtractor'', answer = a, confidence = 0.8,
                  rationale = ''generated'', iteration = 1\<rparr>,
        BoardPut ''ActionItemExtractor-r1''
          \<lparr>role = ''ActionItemExtractor'', answer = a, confidence = 0.8,
           rationale = ''generated'', iteration = 1\<rparr>]
       @ (if has_scheduling_keyword (str_lower a) then
            [FindSlot 45,
             BookEvent (find_slot (length (trace st) + 6) 45) (meeting_title_for (str_lower a))
               (''Follow-up based on meeting summary: '' @ summary)]
          else [])
       @ [StoreLog \<lparr>role = ''Moderator'', answer = schedule_report st', confidence = 0.9,
                    rationale = ''conclusion'', iteration = 1\<rparr>]"
    and rep: "schedule_report st'
         = (if has_scheduling_keyword (str_lower a) then
              if book (length (trace st) + 7) (find_slot (length (trace st) + 6) 45)
                   (meeting_title_for (str_lower a))
                   (''Follow-up based on meeting summary: '' @ summary)
              then success_report (meeting_title_for (str_lower a))
                     (find_slot (length (trace st) + 6) 45)
              else ''FAILURE: Could not schedule the meeting.''
            else ''CONCLUSION: No specific scheduling action item was identified.'')"
    and sm: "summary = generate e (length (trace st))
           (HuggingFaceAgent ''TranscriptSummarizer'' ''summarization'' ''facebook/bart-large-cnn'')
           (''Analyze the following transcript, summarize it, and extract the key action item. Transcript:\<newline>'' @ transcript)
           transcript"
    and ai: "a = generate e (length (trace st) + 3)
           (HuggingFaceAgent ''ActionItemExtractor'' ''text-generation'' ''microsoft/phi-2'')
           action_item_task
           (board_text (AList.update ''TranscriptSummarizer-r1''
              \<lparr>role = ''TranscriptSummarizer'', answer = summary, confidence = 0.8,
               rationale = ''generated'', iteration = 1\<rparr> (board st)))"
    using schedule_run_shape [OF run] by blast
  have lg: "map (\<lambda>c. (role c, answer c)) (logged (run_events st st'))
       = [(''TranscriptSummarizer'', summary), (''ActionItemExtractor'', a),
          (''Moderator'', schedule_report st')]"
    unfolding ev logged_schedule_events by simp
  have tc: "tool_calls (run_events st st')
      = (if has_scheduling_keyword (str_lower a) then
            [FindSlot 45,
             BookEvent (find_slot (length (trace st) + 6) 45) (meeting_title_for (str_lower a))
               (''Follow-up based on meeting summary: '' @ summary)]
          else [])"
    unfolding ev logged_schedule_events by (rule refl)
  have none: "\<not> (sublist ''schedule'' (str_lower a) \<or> sublist ''finalize'' (str_lower a)
              \<or> sublist ''review'' (str_lower a))
          \<longrightarrow> tool_calls (run_events st st') = []
              \<and> schedule_report st'
                  = ''CONCLUSION: No specific scheduling action item was identified.''"
    unfolding has_scheduling_keyword_def [symmetric]
    by (cases "has_scheduling_keyword (str_lower a)") (simp_all only: tc rep if_True if_False simp_thms)
  have some: "sublist ''schedule'' (str_lower a) \<or> sublist ''finalize'' (str_lower a)
           \<or> sublist ''review'' (str_lower a)
          \<longrightarrow> tool_calls (run_events st st')
                = [FindSlot 45,
                   BookEvent (find_slot (length (trace st) + 6) 45)
                     (if sublist ''budget'' (str_lower a) then ''Finalize Q4 Budget''
                      else if sublist ''report'' (str_lower a)
                      then ''Review Detailed Report''
                      else ''General Follow-up Meeting'')
                     (''Follow-up based on meeting summary: '' @ summary)]
              \<and> schedule_report st'
                  = (if book (length (trace st) + 7) (find_slot (length (trace st) + 6) 45)
                         (if sublist ''budget'' (str_lower a) then ''Finalize Q4 Budget''
                          else if sublist ''report'' (str_lower a)
                          then ''Review Detailed Report''
                          else ''General Follow-up Meeting'')
                         (''Follow-up based on meeting summary: '' @ summary)
                     then ''SUCCESS: Follow-up meeting '' @ [CHR 0x27]
                          @ (if sublist ''budget'' (str_lower a)
                             then ''Finalize Q4 Budget''
                             else if sublist ''report'' (str_lower a)
                             then ''Review Detailed Report''
                             else ''General Follow-up Meeting'')
                          @ [CHR 0x27] @ '' scheduled for ''
                          @ find_slot (length (trace st) + 6) 45 @ ''.''
                     else ''FAILURE: Could not schedule the meeting.'')"
    unfolding has_scheduling_keyword_def [symmetric] meeting_title_for_def [symmetric]
      success_report_def [symmetric]
    by (cases "has_scheduling_keyword (str_lower a)") (simp_all only: tc rep if_True if_False simp_thms)
  show ?thesis
    by (intro exI [of _ summary] exI [of _ a] conjI lg sm ai none some)
qed

theorem schedule_branching_witness:
  "run_schedule_optimization_with
       (find_available_calendar_slot (fixed_env True ''Schedule a meeting to finalize the Q4 budget.''))
       (\<lambda>n time_slot title description. False)
       (fixed_env True ''Schedule a meeting to finalize the Q4 budget.'')
       ''Diana: Let us schedule a meeting to finalize the Q4 budget.''
       (Orchestrator_init (HistoryStore_init ''schedule_history.db'') 1 True)
     = Inr (projr (run_schedule_optimization_with
       (find_available_calendar_slot (fixed_env True ''Schedule a meeting to finalize the Q4 budget.''))
       (\<lambda>n time_slot title description. False)
       (fixed_env True ''Schedule a meeting to finalize the Q4 budget.'')
       ''Diana: Let us schedule a meeting to finalize the Q4 budget.''
       (Orchestrator_init (HistoryStore_init ''schedule_history.db'') 1 True)))
   \<and> sublist ''schedule'' (str_lower ''Schedule a meeting to finalize the Q4 budget.'')
   \<and> tool_calls (trace (projr (run_schedule_optimization_with
       (find_available_calendar_slot (fixed_env True ''Schedule a meeting to finalize the Q4 budget.''))
       (\<lambda>n time_slot title description. False)
       (fixed_env True ''Schedule a meeting to finalize the Q4 budget.'')
       ''Diana: Let us schedule a meeting to finalize the Q4 budget.''
       (Orchestrator_init (HistoryStore_init ''schedule_history.db'') 1 True))))
     = [FindSlot 45,
        BookEvent ''2026-11-03 15:00'' ''Finalize Q4 Budget''
          ''Follow-up based on meeting summary: Schedule a meeting to finalize the Q4 budget.'']
   \<and> schedule_report (projr (run_schedule_optimization_with
       (find_available_calendar_slot (fixed_env True ''Schedule a meeting to finalize the Q4 budget.''))
       (\<lambda>n time_slot title description. False)
       (fixed_env True ''Schedule a meeting to finalize the Q4 budget.'')
       ''Diana: Let us schedule a meeting to finalize the Q4 budget.''
       (Orchestrator_init (HistoryStore_init ''schedule_history.db'') 1 True)))
     = ''FAILURE: Could not schedule the meeting.''"
proof -
  let ?r = "''Schedule a meeting to finalize the Q4 budget.''"
  let ?e = "fixed_env True ?r"
  let ?f = "find_available_calendar_slot ?e"
  let ?b = "\<lambda>n time_slot title description. False"
  let ?t = "''Diana: Let us schedule a meeting to finalize the Q4 budget.''"
  let ?st = "Orchestrator_init (HistoryStore_init ''schedule_history.db'') 1 True"
  let ?run = "run_schedule_optimization_with ?f ?b ?e ?t ?st"
  have ok: "pipeline_ok ?e task model" for task model
    by (simp add: fixed_env_def)
  have run: "?run = Inr (projr ?run)"
    unfolding schedule_run_cases by (simp only: ok simp_thms if_True sum.sel)
  have t0: "trace ?st = []"
    by (simp add: Orchestrator_init_def)
  have nf: "str_find ?r ''Output:'' = - 1"
    by code_simp
  have kw: "sublist ''schedule'' (str_lower ?r)" and bud: "sublist ''budget'' (str_lower ?r)"
    by code_simp+
  have slot: "?f n 45 = ''2026-11-03 15:00''" for n
    by (simp add: find_available_calendar_slot_def fixed_env_def)
  have re: "run_events ?st (projr ?run) = trace (projr ?run)"
    by (simp add: run_events_def t0)
  from schedule_branching [OF run]
  have "tool_calls (trace (projr ?run))
     = [FindSlot 45,
        BookEvent ''2026-11-03 15:00'' ''Finalize Q4 Budget''
          (''Follow-up based on meeting summary: '' @ ?r)]
   \<and> schedule_report (projr ?run) = ''FAILURE: Could not schedule the meeting.''"
    unfolding fixed_env_extractor [OF nf] fixed_env_summarizer re slot
    by (elim exE conjE) (simp only: kw bud simp_thms if_True if_False)
  then show ?thesis
    using run kw by simp
qed

lemma board_after_schedule_events:
  "board_after ([AgentCall r1 t1 b1, StoreLog c1, BoardPut k1 c1, AgentCall r2 t2 b2, StoreLog c2,
            BoardPut k2 c2]
           @ (if w then [FindSlot d, BookEvent x y z] else []) @ [StoreLog c3]) b
     = AList.update k2 c2 (AList.update k1 c1 b)"
  by simp

text \<open>
  Claim C8. The last event of a run of the schedule workflow is the append to the store
  of a contribution with role \<open>Moderator\<close>, rationale \<open>conclusion\<close> and the final report as
  its answer; it is the last row of the store. The run writes the board under the keys
  \<open>TranscriptSummarizer-r1\<close> and \<open>ActionItemExtractor-r1\<close> and under no other key: from an
  empty board, the board at the end holds exactly these two entries, none of the
  moderator.
\<close>

theorem schedule_final_step:
  assumes run: "run_schedule_optimization_with find_slot book e transcript st = Inr st'"
  shows "last (run_events st st')
           = StoreLog \<lparr>role = ''Moderator'', answer = schedule_report st', confidence = 0.9,
                       rationale = ''conclusion'', iteration = 1\<rparr>
         \<and> contrib (last (rows (store st')))
           = \<lparr>role = ''Moderator'', answer = schedule_report st', confidence = 0.9,
              rationale = ''conclusion'', iteration = 1\<rparr>
         \<and> put_keys (run_events st st') = [''TranscriptSummarizer-r1'', ''ActionItemExtractor-r1'']
         \<and> board st' = board_after (run_events st st') (board st)
         \<and> (board st = [] \<longrightarrow>
               map (\<lambda>kc. (fst kc, role (snd kc))) (board st')
                 = [(''TranscriptSummarizer-r1'', ''TranscriptSummarizer''),
                    (''ActionItemExtractor-r1'', ''ActionItemExtractor'')])"
proof -
  obtain summary a where ev: "run_events st st' =
       [AgentCall ''TranscriptSummarizer''
          (''Analyze the following transcript, summarize it, and extract the key action item. Transcript:\<newline>'' @ transcript)
          transcript,
        StoreLog \<lparr>role = ''TranscriptSummarizer'', answer = summary, confidence = 0.8,
                  rationale = ''generated'', iteration = 1\<rparr>,
        BoardPut ''TranscriptSummarizer-r1''
          \<lparr>role = ''TranscriptSummarizer'', answer = summary, confidence = 0.8,
           rationale = ''generated'', iteration = 1\<rparr>,
        AgentCall ''ActionItemExtractor'' action_item_task
          (board_text (AList.update ''TranscriptSummarizer-r1''
             \<lparr>role = ''TranscriptSummarizer'', answer = summary, confidence = 0.8,
              rationale = ''generated'', iteration = 1\<rparr> (board st))),
        StoreLog \<lparr>role = ''ActionItemExtractor'', answer = a, confidence = 0.8,
                  rationale = ''generated'', iteration = 1\<rparr>,
        BoardPut ''ActionItemExtractor-r1''
          \<lparr>role = ''ActionItemExtractor'', answer = a, confidence = 0.8,
           rationale = ''generated'', iteration = 1\<rparr>]
       @ (if has_scheduling_keyword (str_lower a) then
            [FindSlot 45,
             BookEvent (find_slot (length (trace st) + 6) 45) (meeting_title_for (str_lower a))
               (''Follow-up based on meeting summary: '' @ summary)]
          else [])
       @ [StoreLog \<lparr>role = ''Moderator'', answer = schedule_report st', confidence = 0.9,
                    rationale = ''conclusion'', iteration = 1\<rparr>]"
    and rows: "map contrib (rows (store st')) = map contrib (rows (store st)) @ logged (run_events st st')"
    and ba: "board st' = board_after (run_events st st') (board st)"
    using schedule_run_shape [OF run] by blast
  have l: "last (run_events st st')
           = StoreLog \<lparr>role = ''Moderator'', answer = schedule_report st', confidence = 0.9,
                       rationale = ''conclusion'', iteration = 1\<rparr>"
    unfolding ev logged_schedule_events by (rule refl)
  have "map contrib (rows (store st')) = map contrib (rows (store st))
      @ [\<lparr>role = ''TranscriptSummarizer'', answer = summary, confidence = 0.8,
          rationale = ''generated'', iteration = 1\<rparr>,
         \<lparr>role = ''ActionItemExtractor'', answer = a, confidence = 0.8,
          rationale = ''generated'', iteration = 1\<rparr>,
         \<lparr>role = ''Moderator'', answer = schedule_report st', confidence = 0.9,
          rationale = ''conclusion'', iteration = 1\<rparr>]"
    using rows unfolding ev logged_schedule_events .
  then have "last (map contrib (rows (store st')))
      = \<lparr>role = ''Moderator'', answer = schedule_report st', confidence = 0.9,
         rationale = ''conclusion'', iteration = 1\<rparr>"
    and "rows (store st') \<noteq> []"
    by auto
  then have c: "contrib (last (rows (store st')))
      = \<lparr>role = ''Moderator'', answer = schedule_report st', confidence = 0.9,
         rationale = ''conclusion'', iteration = 1\<rparr>"
    by (simp add: last_map)
  have k: "put_keys (run_events st st') = [''TranscriptSummarizer-r1'', ''ActionItemExtractor-r1'']"
    unfolding ev logged_schedule_events by (rule refl)
  have "board st' = AList.update ''ActionItemExtractor-r1''
      \<lparr>role = ''ActionItemExtractor'', answer = a, confidence = 0.8,
       rationale = ''generated'', iteration = 1\<rparr>
      (AList.update ''TranscriptSummarizer-r1''
        \<lparr>role = ''TranscriptSummarizer'', answer = summary, confidence = 0.8,
         rationale = ''generated'', iteration = 1\<rparr> (board st))"
    using ba unfolding ev board_after_schedule_events .
  then have e: "board st = [] \<longrightarrow>
               map (\<lambda>kc. (fst kc, role (snd kc))) (board st')
                 = [(''TranscriptSummarizer-r1'', ''TranscriptSummarizer''),
                    (''ActionItemExtractor-r1'', ''ActionItemExtractor'')]"
    by simp
  show ?thesis
    by (intro conjI l c k ba e)
qed

theorem schedule_final_step_witness:
  "run_schedule_optimization_with
       (find_available_calendar_slot (fixed_env True ''Nothing to do.''))
       book_calendar_event (fixed_env True ''Nothing to do.'') ''Charles: OK team.''
       (Orchestrator_init (HistoryStore_init ''schedule_history.db'') 1 True)
     = Inr (projr (run_schedule_optimization_with
       (find_available_calendar_slot (fixed_env True ''Nothing to do.''))
       book_calendar_event (fixed_env True ''Nothing to do.'') ''Charles: OK team.''
       (Orchestrator_init (HistoryStore_init ''schedule_history.db'') 1 True)))
   \<and> board (Orchestrator_init (HistoryStore_init ''schedule_history.db'') 1 True) = []
   \<and> map (\<lambda>kc. (fst kc, role (snd kc))) (board (projr (run_schedule_optimization_with
       (find_available_calendar_slot (fixed_env True ''Nothing to do.''))
       book_calendar_event (fixed_env True ''Nothing to do.'') ''Charles: OK team.''
       (Orchestrator_init (HistoryStore_init ''schedule_history.db'') 1 True))))
     = [(''TranscriptSummarizer-r1'', ''TranscriptSummarizer''),
        (''ActionItemExtractor-r1'', ''ActionItemExtractor'')]
   \<and> role (contrib (last (rows (store (projr (run_schedule_optimization_with
       (find_available_calendar_slot (fixed_env True ''Nothing to do.''))
       book_calendar_event (fixed_env True ''Nothing to do.'') ''Charles: OK team.''
       (Orchestrator_init (HistoryStore_init ''schedule_history.db'') 1 True))))))) = ''Moderator''"
proof -
  let ?e = "fixed_env True ''Nothing to do.''"
  let ?st = "Orchestrator_init (HistoryStore_init ''schedule_history.db'') 1 True"
  let ?run = "run_schedule_optimization_with (find_available_calendar_slot ?e)
       book_calendar_event ?e ''Charles: OK team.'' ?st"
  have ok: "pipeline_ok ?e task model" for task model
    by (simp add: fixed_env_def)
  have run: "?run = Inr (projr ?run)"
    unfolding schedule_run_cases by (simp only: ok simp_thms if_True sum.sel)
  have b: "board ?st = []"
    by (simp add: Orchestrator_init_def)
  note f = schedule_final_step [OF run]
  have m: "map (\<lambda>kc. (fst kc, role (snd kc))) (board (projr ?run))
     = [(''TranscriptSummarizer-r1'', ''TranscriptSummarizer''),
        (''ActionItemExtractor-r1'', ''ActionItemExtractor'')]"
    using f b by blast
  have "contrib (last (rows (store (projr ?run))))
      = \<lparr>role = ''Moderator'', answer = schedule_report (projr ?run), confidence = 0.9,
         rationale = ''conclusion'', iteration = 1\<rparr>"
    using f by blast
  then have r: "role (contrib (last (rows (store (projr ?run))))) = ''Moderator''"
    by simp
  show ?thesis
    by (intro conjI run b m r)
qed

text \<open>
  Claim C10. \<open>book_calendar_event\<close> of tools.py returns true on every input. So the
  report of the schedule workflow with the collaborators of tools.py is never the
  failure text, and whenever the lower-cased action items contain one of the scheduling
  keywords it is the success text, with the title derived from the action items and the
  slot that the slot finder returned.
\<close>

theorem booking_always_succeeds:
  "book_calendar_event n time_slot title description
   \<and> (run_schedule_optimization e transcript st = Inr st' \<longrightarrow>
        schedule_report st' \<noteq> ''FAILURE: Could not schedule the meeting.''
        \<and> (\<exists>summary action_items.
             map (\<lambda>c. (role c, answer c)) (logged (run_events st st'))
               = [(''TranscriptSummarizer'', summary), (''ActionItemExtractor'', action_items),
                  (''Moderator'', schedule_report st')]
             \<and> summary = generate e (length (trace st))
                 (HuggingFaceAgent ''TranscriptSummarizer'' ''summarization'' ''facebook/bart-large-cnn'')
                 (''Analyze the following transcript, summarize it, and extract the key action item. Transcript:\<newline>'' @ transcript)
                 transcript
             \<and> action_items = generate e (length (trace st) + 3)
                 (HuggingFaceAgent ''ActionItemExtractor'' ''text-generation'' ''microsoft/phi-2'')
                 action_item_task
                 (board_text (AList.update ''TranscriptSummarizer-r1''
                    \<lparr>role = ''TranscriptSummarizer'', answer = summary, confidence = 0.8,
                     rationale = ''generated'', iteration = 1\<rparr> (board st)))
             \<and> (sublist ''schedule'' (str_lower action_items)
                   \<or> sublist ''finalize'' (str_lower action_items)
                   \<or> sublist ''review'' (str_lower action_items)
                 \<longrightarrow> schedule_report st'
                       = ''SUCCESS: Follow-up meeting '' @ [CHR 0x27]
                          @ (if sublist ''budget'' (str_lower action_items)
                             then ''Finalize Q4 Budget''
                             else if sublist ''report'' (str_lower action_items)
                             then ''Review Detailed Report''
                             else ''General Follow-up Meeting'')
                          @ [CHR 0x27] @ '' scheduled for ''
                          @ now_plus_3h e (length (trace st) + 6) @ ''.'')))"
proof -
  have always: "book_calendar_event n time_slot title description" for n time_slot title description
    by (simp add: book_calendar_event_def)
  have "schedule_report st' \<noteq> ''FAILURE: Could not schedule the meeting.''
        \<and> (\<exists>summary action_items.
             map (\<lambda>c. (role c, answer c)) (logged (run_events st st'))
               = [(''TranscriptSummarizer'', summary), (''ActionItemExtractor'', action_items),
                  (''Moderator'', schedule_report st')]
             \<and> summary = generate e (length (trace st))
                 (HuggingFaceAgent ''TranscriptSummarizer'' ''summarization'' ''facebook/bart-large-cnn'')
                 (''Analyze the following transcript, summarize it, and extract the key action item. Transcript:\<newline>'' @ transcript)
                 transcript
             \<and> action_items = generate e (length (trace st) + 3)
                 (HuggingFaceAgent ''ActionItemExtractor'' ''text-generation'' ''microsoft/phi-2'')
                 action_item_task
                 (board_text (AList.update ''TranscriptSummarizer-r1''
                    \<lparr>role = ''TranscriptSummarizer'', answer = summary, confidence = 0.8,
                     rationale = ''generated'', iteration = 1\<rparr> (board st)))
             \<and> (sublist ''schedule'' (str_lower action_items)
                   \<or> sublist ''finalize'' (str_lower action_items)
                   \<or> sublist ''review'' (str_lower action_items)
                 \<longrightarrow> schedule_report st'
                       = ''SUCCESS: Follow-up meeting '' @ [CHR 0x27]
                          @ (if sublist ''budget'' (str_lower action_items)
                             then ''Finalize Q4 Budget''
                             else if sublist ''report'' (str_lower action_items)
                             then ''Review Detailed Report''
                             else ''General Follow-up Meeting'')
                          @ [CHR 0x27] @ '' scheduled for ''
                          @ now_plus_3h e (length (trace st) + 6) @ ''.''))"
    if run: "run_schedule_optimization e transcript st = Inr st'"
  proof -
    have run': "run_schedule_optimization_with (find_available_calendar_slot e) book_calendar_event
        e transcript st = Inr st'"
      using run by (simp only: run_schedule_optimization_def)
    obtain summary a where ev: "run_events st st' =
       [AgentCall ''TranscriptSummarizer''
          (''Analyze the following transcript, summarize it, and extract the key action item. Transcript:\<newline>'' @ transcript)
          transcript,
        StoreLog \<lparr>role = ''TranscriptSummarizer'', answer = summary, confidence = 0.8,
                  rationale = ''generated'', iteration = 1\<rparr>,
        BoardPut ''TranscriptSummarizer-r1''
          \<lparr>role = ''TranscriptSummarizer'', answer = summary, confidence = 0.8,
           rationale = ''generated'', iteration = 1\<rparr>,
        AgentCall ''ActionItemExtractor'' action_item_task
          (board_text (AList.update ''TranscriptSummarizer-r1''
             \<lparr>role = ''TranscriptSummarizer'', answer = summary, confidence = 0.8,
              rationale = ''generated'', iteration = 1\<rparr> (board st))),
        StoreLog \<lparr>role = ''ActionItemExtractor'', answer = a, confidence = 0.8,
                  rationale = ''generated'', iteration = 1\<rparr>,
        BoardPut ''ActionItemExtractor-r1''
          \<lparr>role = ''ActionItemExtractor'', answer = a, confidence = 0.8,
           rationale = ''generated'', iteration = 1\<rparr>]
       @ (if has_scheduling_keyword (str_lower a) then
            [FindSlot 45,
             BookEvent (find_available_calendar_slot e (length (trace st) + 6) 45)
               (meeting_title_for (str_lower a))
               (''Follow-up based on meeting summary: '' @ summary)]
          else [])
       @ [StoreLog \<lparr>role = ''Moderator'', answer = schedule_report st', confidence = 0.9,
                    rationale = ''conclusion'', iteration = 1\<rparr>]"
      and rep: "schedule_report st'
         = (if has_scheduling_keyword (str_lower a) then
              if book_calendar_event (length (trace st) + 7)
                   (find_available_calendar_slot e (length (trace st) + 6) 45)
                   (meeting_title_for (str_lower a))
                   (''Follow-up based on meeting summary: '' @ summary)
              then success_report (meeting_title_for (str_lower a))
                     (find_available_calendar_slot e (length (trace st) + 6) 45)
              else ''FAILURE: Could not schedule the meeting.''
            else ''CONCLUSION: No specific scheduling action item was identified.'')"
      and sm: "summary = generate e (length (trace st))
           (HuggingFaceAgent ''TranscriptSummarizer'' ''summarization'' ''facebook/bart-large-cnn'')
           (''Analyze the following transcript, summarize it, and extract the key action item. Transcript:\<newline>'' @ transcript)
           transcript"
      and ai: "a = generate e (length (trace st) + 3)
           (HuggingFaceAgent ''ActionItemExtractor'' ''text-generation'' ''microsoft/phi-2'')
           action_item_task
           (board_text (AList.update ''TranscriptSummarizer-r1''
              \<lparr>role = ''TranscriptSummarizer'', answer = summary, confidence = 0.8,
               rationale = ''generated'', iteration = 1\<rparr> (board st)))"
      using schedule_run_shape [OF run'] by blast
    have rep': "schedule_report st'
         = (if has_scheduling_keyword (str_lower a)
            then success_report (meeting_title_for (str_lower a))
                   (now_plus_3h e (length (trace st) + 6))
            else ''CONCLUSION: No specific scheduling action item was identified.'')"
      unfolding rep by (simp only: always if_True find_available_calendar_slot_def)
    have nf: "schedule_report st' \<noteq> ''FAILURE: Could not schedule the meeting.''"
      unfolding rep' by (simp add: success_report_def)
    have lg: "map (\<lambda>c. (role c, answer c)) (logged (run_events st st'))
       = [(''TranscriptSummarizer'', summary), (''ActionItemExtractor'', a),
          (''Moderator'', schedule_report st')]"
      unfolding ev logged_schedule_events by simp
    have su: "sublist ''schedule'' (str_lower a) \<or> sublist ''finalize'' (str_lower a)
                   \<or> sublist ''review'' (str_lower a)
                 \<longrightarrow> schedule_report st'
                       = ''SUCCESS: Follow-up meeting '' @ [CHR 0x27]
                          @ (if sublist ''budget'' (str_lower a)
                             then ''Finalize Q4 Budget''
                             else if sublist ''report'' (str_lower a)
                             then ''Review Detailed Report''
                             else ''General Follow-up Meeting'')
                          @ [CHR 0x27] @ '' scheduled for ''
                          @ now_plus_3h e (length (trace st) + 6) @ ''.''"
      unfolding has_scheduling_keyword_def [symmetric] meeting_title_for_def [symmetric]
        success_report_def [symmetric]
      by (cases "has_scheduling_keyword (str_lower a)") (simp_all only: rep' if_True if_False simp_thms)
    show ?thesis
      by (intro conjI nf exI [of _ summary] exI [of _ a] lg sm ai su)
  qed
  then show ?thesis
    using always by blast
qed

theorem booking_always_succeeds_witness:
  "run_schedule_optimization (fixed_env True ''Schedule a meeting to finalize the Q4 budget.'')
       ''Diana: Let us schedule a meeting to finalize the Q4 budget.''
       (Orchestrator_init (HistoryStore_init ''schedule_history.db'') 1 True)
     = Inr (projr (run_schedule_optimization
       (fixed_env True ''Schedule a meeting to finalize the Q4 budget.'')
       ''Diana: Let us schedule a meeting to finalize the Q4 budget.''
       (Orchestrator_init (HistoryStore_init ''schedule_history.db'') 1 True)))
   \<and> sublist ''schedule'' (str_lower ''Schedule a meeting to finalize the Q4 budget.'')
   \<and> schedule_report (projr (run_schedule_optimization
       (fixed_env True ''Schedule a meeting to finalize the Q4 budget.'')
       ''Diana: Let us schedule a meeting to finalize the Q4 budget.''
       (Orchestrator_init (HistoryStore_init ''schedule_history.db'') 1 True)))
     = ''SUCCESS: Follow-up meeting '' @ [CHR 0x27] @ ''Finalize Q4 Budget'' @ [CHR 0x27]
         @ '' scheduled for 2026-11-03 15:00.''"
proof -
  let ?r = "''Schedule a meeting to finalize the Q4 budget.''"
  let ?e = "fixed_env True ?r"
  let ?t = "''Diana: Let us schedule a meeting to finalize the Q4 budget.''"
  let ?st = "Orchestrator_init (HistoryStore_init ''schedule_history.db'') 1 True"
  let ?run = "run_schedule_optimization ?e ?t ?st"
  have ok: "pipeline_ok ?e task model" for task model
    by (simp add: fixed_env_def)
  have run: "?run = Inr (projr ?run)"
    unfolding run_schedule_optimization_def schedule_run_cases
    by (simp only: ok simp_thms if_True sum.sel)
  have nf: "str_find ?r ''Output:'' = - 1"
    by code_simp
  have kw: "sublist ''schedule'' (str_lower ?r)" and bud: "sublist ''budget'' (str_lower ?r)"
    by code_simp+
  have slot: "now_plus_3h ?e n = ''2026-11-03 15:00''" for n
    by (simp add: fixed_env_def)
  from booking_always_succeeds [of 0 "[]" "[]" "[]" ?e ?t ?st "projr ?run"] run
  have "schedule_report (projr ?run)
     = ''SUCCESS: Follow-up meeting '' @ [CHR 0x27] @ ''Finalize Q4 Budget'' @ [CHR 0x27]
         @ '' scheduled for '' @ ''2026-11-03 15:00'' @ ''.''"
    unfolding fixed_env_extractor [OF nf] fixed_env_summarizer slot
    by (elim conjE impE exE) (simp_all only: kw bud simp_thms if_True if_False)
  then show ?thesis
    using run kw by simp
qed

section \<open>The store is ahead of the board\<close>


lemma orchestrator_inv_init: "orchestrator_inv (map contrib (rows s)) (Orchestrator_init s n hf)"
  by (simp add: orchestrator_inv_def Orchestrator_init_def store_ahead_def)

lemma orchestrator_inv_step:
  assumes inv: "orchestrator_inv base st"
    and tr: "trace st' = trace st @ evs"
    and rows: "map contrib (rows (store st')) = map contrib (rows (store st)) @ logged evs"
    and ba: "board st' = board_after evs (board st)"
    and ah: "\<forall>b. mset (map snd (board st)) \<subseteq># mset b \<longrightarrow> store_ahead b (board st) evs"
  shows "orchestrator_inv base st'"
proof -
  have a: "store_ahead [] [] (trace st)" and b: "board st = board_after (trace st) []"
    and r: "map contrib (rows (store st)) = base @ logged (trace st)"
    using inv by (simp_all add: orchestrator_inv_def)
  have "mset (map snd (board st)) \<subseteq># mset (logged (trace st))"
    using store_ahead_end [OF a] b by simp
  then have "store_ahead ([] @ logged (trace st)) (board_after (trace st) []) evs"
    using ah b by simp
  then have "store_ahead [] [] (trace st @ evs)"
    using a by (rule store_ahead_append [rotated])
  then show ?thesis
    by (simp add: orchestrator_inv_def tr rows ba b r)
qed

lemma research_run_shape:
  assumes run: "run_research_collaboration e task st = Inr (res, st')"
  shows "\<exists>evs. trace st' = trace st @ evs
     \<and> map contrib (rows (store st')) = map contrib (rows (store st)) @ logged evs
     \<and> board st' = board_after evs (board st)
     \<and> (\<forall>b. mset (map snd (board st)) \<subseteq># mset b \<longrightarrow> store_ahead b (board st) evs)
     \<and> tool_calls evs = []"
proof -
  obtain ags m where made: "research_agents e (use_hf st) = Inr (ags, m)"
    using run by (cases "research_agents e (use_hf st)")
      (auto simp: run_research_collaboration_def bind_error_def)
  define st1 where "st1 = st\<lparr>agents := ags, moderator := Some m\<rparr>"
  have st': "st' = snd (research_rounds e task m [1..rounds st] st1)"
    using run
    by (simp add: run_research_collaboration_def made bind_error_def st1_def case_prod_beta Let_def)
  obtain evs where a: "advances st1 st' evs" and t: "tool_calls evs = []"
    unfolding st' using advances_research_rounds by blast
  have f: "trace st1 = trace st" "board st1 = board st" "store st1 = store st"
    by (simp_all add: st1_def)
  show ?thesis
    using a t unfolding advances_def f by blast
qed

lemma invoke_all_inv:
  "invoke_all e ws st = Inr st' \<Longrightarrow> orchestrator_inv base st \<Longrightarrow> orchestrator_inv base st'"
proof (induction ws arbitrary: st)
  case Nil
  then show ?case by simp
next
  case (Cons w ws)
  show ?case
  proof (cases w)
    case (Research task)
    obtain res st1 where run: "run_research_collaboration e task st = Inr (res, st1)"
      and rest: "invoke_all e ws st1 = Inr st'"
      using Cons.prems(1) Research
      by (cases "run_research_collaboration e task st") (auto simp: bind_error_def)
    have "orchestrator_inv base st1"
      using research_run_shape [OF run] orchestrator_inv_step [OF Cons.prems(2)] by blast
    then show ?thesis
      using Cons.IH [OF rest] by simp
  next
    case (Schedule transcript)
    obtain st1 where run: "run_schedule_optimization e transcript st = Inr st1"
      and rest: "invoke_all e ws st1 = Inr st'"
      using Cons.prems(1) Schedule
      by (cases "run_schedule_optimization e transcript st") (auto simp: bind_error_def)
    have run': "run_schedule_optimization_with (find_available_calendar_slot e) book_calendar_event
        e transcript st = Inr st1"
      using run by (simp only: run_schedule_optimization_def)
    have "orchestrator_inv base st1"
      using schedule_run_shape [OF run'] orchestrator_inv_step [OF Cons.prems(2)] by blast
    then show ?thesis
      using Cons.IH [OF rest] by simp
  qed
qed

lemma logged_mem: "c \<in> set (logged evs) \<longleftrightarrow> StoreLog c \<in> set evs"
  by (induction evs rule: logged.induct) auto

lemma update_mem: "(k, c) \<in> set (AList.update k c b)"
  by (induction b) auto

lemma put_after_log:
  assumes "store_ahead [] [] evs" "prefix (p @ [BoardPut k c]) evs"
  shows "StoreLog c \<in> set p"
proof -
  have "mset (map snd (board_after (p @ [BoardPut k c]) [])) \<subseteq># mset (logged (p @ [BoardPut k c]))"
    using assms by (simp add: store_ahead_def del: board_after_append logged_append)
  then have "mset (map snd (AList.update k c (board_after p []))) \<subseteq># mset (logged p)"
    by simp
  moreover have "c \<in># mset (map snd (AList.update k c (board_after p [])))"
    using update_mem [of k c "board_after p []"] by (simp add: image_iff) force
  ultimately have "c \<in># mset (logged p)"
    by (meson mset_subset_eqD)
  then show ?thesis
    by (simp add: logged_mem)
qed

text \<open>
  Claim C7. Take an \<open>Orchestrator\<close> as its constructor makes it and any sequence of
  invocations of the two workflows on it; the run is the sequence of its events. At every
  point of the run (every prefix \<open>p\<close> of the trace) the contributions on the board are
  among those appended to the store in the run so far, counted with multiplicity; every
  write of a contribution to the board comes after the append of that contribution to
  the store; and the board and the store at the end are what the events say: the board is
  the replay of the writes, the store holds its earlier rows followed by the appended
  contributions.
\<close>

theorem store_ahead_of_board:
  assumes "invoke_all e ws (Orchestrator_init s n hf) = Inr st'"
  shows "(\<forall>p. prefix p (trace st') \<longrightarrow>
            mset (map snd (board_after p [])) \<subseteq># mset (logged p))
         \<and> (\<forall>p k c. prefix (p @ [BoardPut k c]) (trace st') \<longrightarrow> StoreLog c \<in> set p)
         \<and> board st' = board_after (trace st') []
         \<and> map contrib (rows (store st')) = map contrib (rows s) @ logged (trace st')
         \<and> mset (map snd (board st')) \<subseteq># mset (map contrib (rows (store st')))"
proof -
  have inv: "orchestrator_inv (map contrib (rows s)) st'"
    using invoke_all_inv [OF assms orchestrator_inv_init] .
  then have a: "store_ahead [] [] (trace st')"
    and b: "board st' = board_after (trace st') []"
    and r: "map contrib (rows (store st')) = map contrib (rows s) @ logged (trace st')"
    by (simp_all add: orchestrator_inv_def)
  have p: "\<forall>p. prefix p (trace st') \<longrightarrow>
            mset (map snd (board_after p [])) \<subseteq># mset (logged p)"
    using a by (simp add: store_ahead_def)
  have q: "\<forall>p k c. prefix (p @ [BoardPut k c]) (trace st') \<longrightarrow> StoreLog c \<in> set p"
    using put_after_log [OF a] by blast
  have "mset (map snd (board st')) \<subseteq># mset (logged (trace st'))"
    using p b by simp
  then have m: "mset (map snd (board st')) \<subseteq># mset (map contrib (rows (store st')))"
    unfolding r by (simp add: subset_mset.add_increasing)
  show ?thesis
    by (intro conjI p q b r m)
qed

theorem store_ahead_of_board_witness:
  "invoke_all (fixed_env False []) [Research ''What is the capital of France?'']
       (Orchestrator_init (HistoryStore_init ''collab_history_test.db'') 1 False)
     = Inr (projr (invoke_all (fixed_env False []) [Research ''What is the capital of France?'']
       (Orchestrator_init (HistoryStore_init ''collab_history_test.db'') 1 False)))
   \<and> mset (map snd (board (projr (invoke_all (fixed_env False [])
         [Research ''What is the capital of France?'']
         (Orchestrator_init (HistoryStore_init ''collab_history_test.db'') 1 False)))))
       \<subseteq># mset (map contrib (rows (store (projr (invoke_all (fixed_env False [])
         [Research ''What is the capital of France?'']
         (Orchestrator_init (HistoryStore_init ''collab_history_test.db'') 1 False))))))"
proof -
  let ?e = "fixed_env False []"
  let ?st = "Orchestrator_init (HistoryStore_init ''collab_history_test.db'') 1 False"
  let ?t = "''What is the capital of France?''"
  have "research_agents ?e (use_hf ?st)
     = Inr ([(''ResearchBot'', FakeLLM ''ResearchBot''), (''CreativeBot'', FakeLLM ''CreativeBot''),
             (''AnalysisBot'', FakeLLM ''AnalysisBot'')], FakeLLM ''Moderator'')"
    by (simp add: Orchestrator_init_def research_agents_fake)
  then obtain res st' where "run_research_collaboration ?e ?t ?st = Inr (res, st')"
    using run_research_returns by blast
  then have run: "invoke_all ?e [Research ?t] ?st = Inr (projr (invoke_all ?e [Research ?t] ?st))"
    by (simp add: bind_error_def)
  show ?thesis
    using store_ahead_of_board [OF run] run by blast
qed

end
